theory Spec2Isabelle
  imports Main
begin

section \<open>JavaScript values, the object heap and validation results\<close>

text \<open>
  The validators of \<^verbatim>\<open>securityValidator.ts\<close> take a value of type \<^verbatim>\<open>any\<close>. Objects
  and arrays are heap cells with identity (the prototype-pollution scanner keys its
  visited set on identity, and an object graph may be cyclic), so a value is either a
  primitive or a reference into a heap. A heap is a list of cells and an address is an
  index into it; a reference beyond the heap denotes an object without own properties.

  Strings are sequences of code units; the model covers the code units below 256
  (\<open>char\<close>), on which \<^verbatim>\<open>length\<close>, \<^verbatim>\<open>trim\<close> and \<^verbatim>\<open>toLowerCase\<close> are written out below.
  Numbers are modelled by \<open>int\<close>.
\<close>

type_synonym addr = nat

datatype jsval =
    JUndefined
  | JNull
  | JBool bool
  | JNum int
  | JStr string
  | JFunction
  | JRef addr

datatype jsobj =
    JObject "(string \<times> jsval) list"
  | JArray "jsval list"

type_synonym heap = "jsobj list"

text \<open>A regular expression is modelled by its \<^verbatim>\<open>test\<close> method.\<close>

type_synonym regex = "string \<Rightarrow> bool"

fun truthy :: "jsval \<Rightarrow> bool" where
  "truthy JUndefined = False"
| "truthy JNull = False"
| "truthy (JBool b) = b"
| "truthy (JNum n) = (n \<noteq> 0)"
| "truthy (JStr s) = (s \<noteq> [])"
| "truthy JFunction = True"
| "truthy (JRef a) = True"

fun typeof :: "jsval \<Rightarrow> string" where
  "typeof JUndefined = ''undefined''"
| "typeof JNull = ''object''"
| "typeof (JBool b) = ''boolean''"
| "typeof (JNum n) = ''number''"
| "typeof (JStr s) = ''string''"
| "typeof JFunction = ''function''"
| "typeof (JRef a) = ''object''"

definition digit :: "nat \<Rightarrow> char" where
  "digit n = ''0123456789'' ! (n mod 10)"

fun show_nat :: "nat \<Rightarrow> string" where
  "show_nat n = (if n < 10 then [digit n] else show_nat (n div 10) @ [digit n])"

definition show_int :: "int \<Rightarrow> string" where
  "show_int i = (if i < 0 then CHR ''-'' # show_nat (nat (- i)) else show_nat (nat i))"

text \<open>
  \<^verbatim>\<open>Object.keys\<close> and \<^verbatim>\<open>Object.values\<close>: the own enumerable properties in enumeration
  order; an array's keys are its indices.
\<close>

definition cell :: "heap \<Rightarrow> addr \<Rightarrow> jsobj" where
  "cell h a = (if a < length h then h ! a else JObject [])"

fun cellKeys :: "jsobj \<Rightarrow> string list" where
  "cellKeys (JObject ps) = map fst ps"
| "cellKeys (JArray vs) = map show_nat [0..<length vs]"

fun cellValues :: "jsobj \<Rightarrow> jsval list" where
  "cellValues (JObject ps) = map snd ps"
| "cellValues (JArray vs) = vs"

definition objectKeys :: "heap \<Rightarrow> addr \<Rightarrow> string list" where
  "objectKeys h a = cellKeys (cell h a)"

definition objectValues :: "heap \<Rightarrow> addr \<Rightarrow> jsval list" where
  "objectValues h a = cellValues (cell h a)"

fun isArray :: "heap \<Rightarrow> jsval \<Rightarrow> bool" where
  "isArray h (JRef a) = (case cell h a of JArray vs \<Rightarrow> True | JObject ps \<Rightarrow> False)"
| "isArray h v = False"

text \<open>
  The \<^verbatim>\<open>in\<close> operator also finds the properties every plain object inherits from
  \<^verbatim>\<open>Object.prototype\<close>.
\<close>

definition objectPrototypeKeys :: "string list" where
  "objectPrototypeKeys =
     [''constructor'', ''__proto__'', ''hasOwnProperty'', ''isPrototypeOf'',
      ''propertyIsEnumerable'', ''toLocaleString'', ''toString'', ''valueOf'',
      ''__defineGetter__'', ''__defineSetter__'', ''__lookupGetter__'', ''__lookupSetter__'']"

definition hasProperty :: "heap \<Rightarrow> addr \<Rightarrow> string \<Rightarrow> bool" where
  "hasProperty h a k =
     (k \<in> set (objectKeys h a) \<or> k \<in> set objectPrototypeKeys
      \<or> (case cell h a of JArray vs \<Rightarrow> k = ''length'' | JObject ps \<Rightarrow> False))"

subsection \<open>Errors and results\<close>

text \<open>
  The members of \<^verbatim>\<open>ErrorCode\<close> that the validators name, and the name of a caught
  error, which \<^verbatim>\<open>validateJson\<close> passes as a code. \<^verbatim>\<open>ErrorHandler\<close> builds the error
  objects; an error is recorded as the call that built it, with its arguments.
\<close>

datatype ErrorCode =
    UNKNOWN_ERROR
  | STRING_TOO_LONG
  | STRING_TOO_SHORT
  | INVALID_STRING_FORMAT
  | PATTERN_MISMATCH
  | INVALID_JSON
  | SECURITY_VIOLATION
  | ERROR_NAME string

datatype ValidationError =
    createValidationError "string list" string ErrorCode
  | createStringError "string list" string jsval ErrorCode
  | createTypeError "string list" string jsval
  | createSimpleError string "string list" string

record SchemaValidationResult =
  success :: bool
  errors :: "ValidationError list"
  warnings :: "string list"
  data :: jsval

definition newResult :: "jsval \<Rightarrow> SchemaValidationResult" where
  "newResult v = \<lparr>success = True, errors = [], warnings = [], data = v\<rparr>"

text \<open>\<^verbatim>\<open>result.success = false; result.errors.push(e)\<close>\<close>

definition failWith :: "ValidationError \<Rightarrow> SchemaValidationResult \<Rightarrow> SchemaValidationResult" where
  "failWith e r = r\<lparr>success := False, errors := errors r @ [e]\<rparr>"

text \<open>\<^verbatim>\<open>result.warnings.push(w)\<close>\<close>

definition warn :: "string \<Rightarrow> SchemaValidationResult \<Rightarrow> SchemaValidationResult" where
  "warn w r = r\<lparr>warnings := warnings r @ [w]\<rparr>"

text \<open>
  \<^verbatim>\<open>result.success = result.success && other.success;
  result.errors.push(...other.errors); result.warnings.push(...other.warnings)\<close>
\<close>

definition mergeResult :: "SchemaValidationResult \<Rightarrow> SchemaValidationResult \<Rightarrow> SchemaValidationResult" where
  "mergeResult other r =
     r\<lparr>success := success r \<and> success other,
       errors := errors r @ errors other,
       warnings := warnings r @ warnings other\<rparr>"

text \<open>\<^verbatim>\<open>if (c) { result.success = false; result.errors.push(e); }\<close>\<close>

definition failIf :: "bool \<Rightarrow> ValidationError \<Rightarrow> SchemaValidationResult \<Rightarrow> SchemaValidationResult" where
  "failIf c e r = (if c then failWith e r else r)"

text \<open>\<^verbatim>\<open>if (c) { result.warnings.push(w); }\<close>\<close>

definition warnIf :: "bool \<Rightarrow> string \<Rightarrow> SchemaValidationResult \<Rightarrow> SchemaValidationResult" where
  "warnIf c w r = (if c then warn w r else r)"

text \<open>
  Modelled from the spec: the error taxonomy of the specification and the kind each
  error of the code falls under (\<^verbatim>\<open>ErrorCode\<close> itself is declared outside the sources).
  No code of the validators is of kind \<open>Timeout\<close>.
\<close>

datatype ErrorKind =
    TypeMismatch
  | LengthViolation
  | PatternMismatch
  | SecurityViolation
  | InvalidFormat
  | Timeout
  | UnknownError

fun codeKind :: "ErrorCode \<Rightarrow> ErrorKind" where
  "codeKind UNKNOWN_ERROR = UnknownError"
| "codeKind STRING_TOO_LONG = LengthViolation"
| "codeKind STRING_TOO_SHORT = LengthViolation"
| "codeKind INVALID_STRING_FORMAT = InvalidFormat"
| "codeKind PATTERN_MISMATCH = PatternMismatch"
| "codeKind INVALID_JSON = InvalidFormat"
| "codeKind SECURITY_VIOLATION = SecurityViolation"
| "codeKind (ERROR_NAME n) = UnknownError"


subsection \<open>Exceptions and promises\<close>

text \<open>
  What a \<^verbatim>\<open>catch\<close> receives: an \<^verbatim>\<open>Error\<close> or a \<^verbatim>\<open>TypeError\<close> with its message, or a
  thrown value that is no error object.
\<close>

datatype thrown = ErrorObject string | TypeErrorObject string | NonError

text \<open>\<^verbatim>\<open>error instanceof Error ? error.message : "Unknown error"\<close>\<close>

definition errorMessage :: "thrown \<Rightarrow> string" where
  "errorMessage e =
     (case e of ErrorObject m \<Rightarrow> m | TypeErrorObject m \<Rightarrow> m | NonError \<Rightarrow> ''Unknown error'')"

text \<open>\<^verbatim>\<open>error.name\<close> of an error object.\<close>

definition errorName :: "thrown \<Rightarrow> string" where
  "errorName e =
     (case e of ErrorObject m \<Rightarrow> ''Error'' | TypeErrorObject m \<Rightarrow> ''TypeError'' | NonError \<Rightarrow> [])"

text \<open>The error with which \<^verbatim>\<open>withTimeout\<close> rejects when its timer fires.\<close>

definition timeoutError :: "int \<Rightarrow> thrown" where
  "timeoutError timeoutMs = ErrorObject (''Validation timeout after '' @ show_int timeoutMs @ ''ms'')"

text \<open>An \<^verbatim>\<open>async\<close> function ends in a promise that is resolved or rejected.\<close>

datatype 'a promise = Resolved 'a | Rejected thrown

subsection \<open>The constants of \<^verbatim>\<open>SECURITY_CONSTANTS\<close>\<close>

text \<open>
  \<^verbatim>\<open>SECURITY_CONSTANTS\<close> and \<^verbatim>\<open>MAX_OBJECT_DEPTH\<close> are declared outside the sources; the
  validators take them as a parameter.
\<close>

record SecurityConstants =
  DANGEROUS_PROPERTIES :: "string list"
  XSS_PATTERNS :: "regex list"
  SQL_PATTERNS :: "regex list"
  LDAP_PATTERNS :: "regex list"
  COMMAND_INJECTION_PATTERNS :: "regex list"
  MAX_TEXT_LENGTH :: int
  MAX_JSON_SIZE :: int
  MAX_VALIDATION_TIME :: int
  MAX_OBJECT_DEPTH :: int

text \<open>
  Modelled from the spec: the denylisted property names that the specification lists
  for the prototype-pollution guard (\<^verbatim>\<open>__proto__\<close>, \<^verbatim>\<open>constructor\<close>, \<^verbatim>\<open>prototype\<close>), with no
  pattern and with the size limits the specification leaves open set to sample values.
  Used where a statement needs a concrete instance of the constants.
\<close>

definition specConstants :: SecurityConstants where
  "specConstants =
     \<lparr>DANGEROUS_PROPERTIES = [''__proto__'', ''constructor'', ''prototype''],
      XSS_PATTERNS = [], SQL_PATTERNS = [], LDAP_PATTERNS = [],
      COMMAND_INJECTION_PATTERNS = [],
      MAX_TEXT_LENGTH = 1000000, MAX_JSON_SIZE = 10000000,
      MAX_VALIDATION_TIME = 5000, MAX_OBJECT_DEPTH = 50\<rparr>"

section \<open>The prototype-pollution scanner\<close>

text \<open>
  \<^verbatim>\<open>hasDangerousProperties(obj, visited = new WeakSet())\<close>. The visited set is mutated
  in place and shared by all recursive calls, so the model returns it with the answer;
  \<open>scanValues\<close> is the loop over \<^verbatim>\<open>Object.values(obj)\<close>, which stops at the first value
  that answers true. The values that are falsy or whose \<^verbatim>\<open>typeof\<close> is not
  \<^verbatim>\<open>"object"\<close> are exactly those that are not references (lemma \<open>object_iff_ref\<close>).
\<close>

function hasDangerousProperties ::
    "SecurityConstants \<Rightarrow> heap \<Rightarrow> jsval \<Rightarrow> addr set \<Rightarrow> bool \<times> addr set"
  and scanValues ::
    "SecurityConstants \<Rightarrow> heap \<Rightarrow> jsval list \<Rightarrow> addr set \<Rightarrow> bool \<times> addr set"
where
  "hasDangerousProperties K h obj visited =
     (case obj of
        JRef a \<Rightarrow>
          if a \<in> visited then (False, visited)
          else
            (let visited' = insert a visited in
             if list_ex (\<lambda>key. key \<in> set (DANGEROUS_PROPERTIES K)) (objectKeys h a)
             then (True, visited')
             else scanValues K h (objectValues h a) visited')
      | _ \<Rightarrow> (False, visited))"
| "scanValues K h [] visited = (False, visited)"
| "scanValues K h (v # vs) visited =
     (let (found, visited') = hasDangerousProperties K h v visited in
      if found then (True, visited') else scanValues K h vs visited')"
  by pat_completeness auto

lemma visited_grows_dom:
  "hasDangerousProperties_scanValues_dom (Inl (K, h, obj, visited)) \<Longrightarrow>
     visited \<subseteq> snd (hasDangerousProperties K h obj visited)"
  "hasDangerousProperties_scanValues_dom (Inr (K, h, vs, visited)) \<Longrightarrow>
     visited \<subseteq> snd (scanValues K h vs visited)"
proof (induction K h obj visited and K h vs visited
    rule: hasDangerousProperties_scanValues.pinduct)
  case (1 K h obj visited)
  then show ?case
    by (cases obj) (auto simp: hasDangerousProperties.psimps Let_def)
next
  case (2 K h visited)
  then show ?case
    by (simp add: scanValues.psimps)
next
  case (3 K h v vs visited)
  obtain found visited' where hd: "hasDangerousProperties K h v visited = (found, visited')"
    by (cases "hasDangerousProperties K h v visited")
  from "3.IH"(1) hd have sub: "visited \<subseteq> visited'"
    by simp
  show ?case
  proof (cases found)
    case True
    with hd sub "3.hyps" show ?thesis
      by (simp add: scanValues.psimps)
  next
    case False
    with "3.IH"(2) [of "(found, visited')" found visited'] hd
    have "visited' \<subseteq> snd (scanValues K h vs visited')"
      by simp
    with False hd sub "3.hyps" show ?thesis
      by (auto simp: scanValues.psimps)
  qed
qed

text \<open>
  The measure of the recursion: the number of heap cells not yet visited, then the
  number of values still to scan.
\<close>

definition unvisited :: "heap \<Rightarrow> addr set \<Rightarrow> nat" where
  "unvisited h visited = card ({..<length h} - visited)"

lemma unvisited_insert:
  "a < length h \<Longrightarrow> a \<notin> visited \<Longrightarrow> unvisited h (insert a visited) < unvisited h visited"
  unfolding unvisited_def
  by (intro psubset_card_mono) auto

lemma unvisited_mono:
  "visited \<subseteq> visited' \<Longrightarrow> unvisited h visited' \<le> unvisited h visited"
  unfolding unvisited_def
  by (intro card_mono) auto

lemma unvisited_dangling:
  "\<not> a < length h \<Longrightarrow> unvisited h (insert a visited) = unvisited h visited"
proof -
  assume "\<not> a < length h"
  then have "{..<length h} - insert a visited = {..<length h} - visited"
    by auto
  then show ?thesis
    by (simp add: unvisited_def)
qed

lemma objectValues_dangling: "\<not> a < length h \<Longrightarrow> objectValues h a = []"
  by (simp add: objectValues_def cell_def)

lemma scanner_total: "All hasDangerousProperties_scanValues_dom"
proof (relation "inv_image (less_than <*lex*> less_than)
    (\<lambda>x. case x of
       Inl (K, h, obj, visited) \<Rightarrow> (unvisited h visited, Suc 0)
     | Inr (K, h, vs, visited) \<Rightarrow> (unvisited h visited, 2 * length vs))", goal_cases)
  case 1
  show ?case
    by (intro wf_inv_image wf_lex_prod wf_less_than)
next
  case (2 K h obj visited a visited')
  show ?case
  proof (cases "a < length h")
    case True
    with 2 have "unvisited h visited' < unvisited h visited"
      by (simp add: unvisited_insert)
    then show ?thesis by simp
  next
    case False
    with 2 show ?thesis
      by (simp add: unvisited_dangling objectValues_dangling)
  qed
next
  case (3 K h v vs visited)
  show ?case by simp
next
  case (4 K h v vs visited x found visited')
  then have "visited \<subseteq> visited'"
    using visited_grows_dom(1) [of K h v visited] by (metis snd_conv)
  then have "unvisited h visited' \<le> unvisited h visited"
    by (rule unvisited_mono)
  then show ?case by auto
qed

termination hasDangerousProperties
  by (rule scanner_total)

declare hasDangerousProperties.simps [simp del]

section \<open>The object validator\<close>

text \<open>
  The options of \<^verbatim>\<open>validateObject\<close> after the defaults of its destructuring are applied
  (each field carries the prefix \<open>obj_\<close>, since several option records share field
  names). \<open>obj_schema\<close> is \<open>JUndefined\<close> when no schema is given.
\<close>

record ObjectOptions =
  obj_allowNull :: bool
  obj_allowArray :: bool
  obj_maxDepth :: int
  obj_maxKeys :: int
  obj_requiredKeys :: "string list"
  obj_allowedKeys :: "string list"
  obj_forbiddenKeys :: "string list"
  obj_keyPattern :: "regex option"
  obj_schema :: jsval
  obj_strict :: bool
  obj_preventPrototypePollution :: bool
  obj_maxPropertyNameLength :: int

definition defaultObjectOptions :: "SecurityConstants \<Rightarrow> ObjectOptions" where
  "defaultObjectOptions K =
     \<lparr>obj_allowNull = False, obj_allowArray = False, obj_maxDepth = MAX_OBJECT_DEPTH K,
      obj_maxKeys = 1000, obj_requiredKeys = [], obj_allowedKeys = [],
      obj_forbiddenKeys = [], obj_keyPattern = None, obj_schema = JUndefined,
      obj_strict = False, obj_preventPrototypePollution = True,
      obj_maxPropertyNameLength = 100\<rparr>"

text \<open>
  \<^verbatim>\<open>validateObjectDeep\<close> and \<^verbatim>\<open>validateObjectSchema\<close> are imported from
  \<^verbatim>\<open>utils/securityHelpers\<close>, outside the sources; the validator takes them as
  parameters. Only the \<open>success\<close>, \<open>errors\<close> and \<open>warnings\<close> of their results are read.
\<close>

record ObjectHelpers =
  validateObjectDeep :: "heap \<Rightarrow> jsval \<Rightarrow> int \<Rightarrow> int \<Rightarrow> SchemaValidationResult"
  validateObjectSchema :: "heap \<Rightarrow> jsval \<Rightarrow> jsval \<Rightarrow> SchemaValidationResult"

fun startsWith :: "string \<Rightarrow> string \<Rightarrow> bool" where
  "startsWith s [] = True"
| "startsWith [] (p # ps) = False"
| "startsWith (c # cs) (p # ps) = (c = p \<and> startsWith cs ps)"

text \<open>\<^verbatim>\<open>s.includes(p)\<close>\<close>

fun includesStr :: "string \<Rightarrow> string \<Rightarrow> bool" where
  "includesStr [] p = (p = [])"
| "includesStr (c # cs) p = (startsWith (c # cs) p \<or> includesStr cs p)"

definition asciiLower :: "char \<Rightarrow> char" where
  "asciiLower c =
     (if 65 \<le> (of_char c :: nat) \<and> (of_char c :: nat) \<le> 90
      then char_of ((of_char c :: nat) + 32) else c)"

definition lineTerminator :: "char \<Rightarrow> bool" where
  "lineTerminator c = ((of_char c :: nat) = 10 \<or> (of_char c :: nat) = 13)"

text \<open>
  \<^verbatim>\<open>/.*constructor.*$/\<close>: some occurrence of the word is followed, up to the end of the
  input, by no line terminator (which \<^verbatim>\<open>.\<close> does not match).
\<close>

fun constructorToEnd :: "string \<Rightarrow> bool" where
  "constructorToEnd [] = False"
| "constructorToEnd (c # cs) =
     ((startsWith (c # cs) ''constructor''
         \<and> \<not> list_ex lineTerminator (drop 11 (c # cs)))
      \<or> constructorToEnd cs)"

text \<open>\<^verbatim>\<open>/^__|.*prototype.*|.*constructor.*$/i.test(key)\<close>\<close>

definition suspiciousName :: regex where
  "suspiciousName key =
     (let k = map asciiLower key
      in startsWith k ''__'' \<or> includesStr k ''prototype'' \<or> constructorToEnd k)"

text \<open>A key between single quotes, as the messages print it.\<close>

definition quoted :: "string \<Rightarrow> string" where
  "quoted key = [CHR 0x27] @ key @ [CHR 0x27]"

text \<open>The body of the loop \<^verbatim>\<open>for (const key of keys)\<close>; a \<^verbatim>\<open>continue\<close> ends the body.\<close>

definition checkKey ::
    "SecurityConstants \<Rightarrow> ObjectOptions \<Rightarrow> string \<Rightarrow> SchemaValidationResult \<Rightarrow> SchemaValidationResult" where
  "checkKey K opts key result =
     (if int (length key) > obj_maxPropertyNameLength opts then
        failWith (createValidationError []
          (''Property name '' @ quoted (take 20 key @ ''...'')
             @ '' exceeds maximum length of '' @ show_int (obj_maxPropertyNameLength opts))
          SECURITY_VIOLATION) result
      else if key \<in> set (DANGEROUS_PROPERTIES K) then
        failWith (createValidationError []
          (''Dangerous property name detected: '' @ quoted key)
          SECURITY_VIOLATION) result
      else
        (let r1 = (if length (obj_allowedKeys opts) > 0 \<and> key \<notin> set (obj_allowedKeys opts) then
                     (if obj_strict opts then
                        failWith (createValidationError []
                          (''Key '' @ quoted key @ '' is not in allowed keys list'')
                          SECURITY_VIOLATION) result
                      else warn (''Key '' @ quoted key @ '' is not in allowed keys list'') result)
                   else result);
             r2 = failIf (key \<in> set (obj_forbiddenKeys opts))
                    (createValidationError []
                      (''Key '' @ quoted key @ '' is forbidden'') SECURITY_VIOLATION) r1;
             r3 = (case obj_keyPattern opts of
                     Some keyPattern \<Rightarrow>
                       if \<not> keyPattern key then
                         failWith (createValidationError []
                           (''Key '' @ quoted key @ '' does not match required pattern'')
                           SECURITY_VIOLATION) r2
                       else r2
                   | None \<Rightarrow> r2)
         in if suspiciousName key then
              warn (''Suspicious property name detected: '' @ quoted key) r3
            else r3))"

text \<open>The body of the loop \<^verbatim>\<open>for (const requiredKey of requiredKeys)\<close>.\<close>

definition checkRequired ::
    "heap \<Rightarrow> addr \<Rightarrow> string \<Rightarrow> SchemaValidationResult \<Rightarrow> SchemaValidationResult" where
  "checkRequired h a requiredKey result =
     failIf (\<not> hasProperty h a requiredKey)
       (createValidationError [] (''Missing required key: '' @ requiredKey)
         SECURITY_VIOLATION) result"

text \<open>
  \<^verbatim>\<open>validateObject(value, options)\<close>. Each \<^verbatim>\<open>return result\<close> of the null, array, type and
  prototype-pollution gates is a branch that ends without reaching the key checks.
\<close>

definition validateObject ::
    "SecurityConstants \<Rightarrow> ObjectHelpers \<Rightarrow> heap \<Rightarrow> jsval \<Rightarrow> ObjectOptions \<Rightarrow> SchemaValidationResult" where
  "validateObject K H h val opts =
     (let result = newResult val in
      if val = JNull then
        failIf (\<not> obj_allowNull opts)
          (createValidationError [] ''Null values not allowed'' SECURITY_VIOLATION) result
      else if isArray h val then
        failIf (\<not> obj_allowArray opts)
          (createValidationError [] ''Arrays not allowed'' SECURITY_VIOLATION) result
      else
        (case val of
           JRef a \<Rightarrow>
             if obj_preventPrototypePollution opts \<and> fst (hasDangerousProperties K h val {}) then
               failWith (createValidationError []
                 ''Object contains dangerous properties that could lead to prototype pollution''
                 SECURITY_VIOLATION) result
             else
               (let keys = objectKeys h a;
                    r1 = failIf (int (length keys) > obj_maxKeys opts)
                           (createValidationError []
                             (''Object has too many keys ('' @ show_nat (length keys)
                             @ ''), maximum allowed: '' @ show_int (obj_maxKeys opts))
                             SECURITY_VIOLATION) result;
                    r2 = fold (checkRequired h a) (obj_requiredKeys opts) r1;
                    r3 = fold (checkKey K opts) keys r2;
                    deepResult = validateObjectDeep H h val (obj_maxDepth opts) 0;
                    r4 = mergeResult deepResult r3
                in if truthy (obj_schema opts) \<and> success r4 then
                     mergeResult (validateObjectSchema H h val (obj_schema opts)) r4
                   else r4)
         | _ \<Rightarrow> failWith (createTypeError [] ''object'' val) result))"

section \<open>String operations of the validators\<close>

text \<open>
  On code units below 256 the white space and line terminators that \<^verbatim>\<open>trim\<close> strips and
  that \<^verbatim>\<open>\s\<close> matches are tab, line feed, vertical tab, form feed, carriage return,
  space and the no-break space; \<^verbatim>\<open>toLowerCase\<close> maps \<^verbatim>\<open>A\<close>-\<^verbatim>\<open>Z\<close> and the capital letters
  of the Latin-1 supplement (\<^verbatim>\<open>0xC0\<close>-\<^verbatim>\<open>0xDE\<close> without the multiplication sign \<^verbatim>\<open>0xD7\<close>) to
  the code unit 32 above.
\<close>

definition code :: "char \<Rightarrow> nat" where
  "code c = of_char c"

definition isWhiteSpace :: "char \<Rightarrow> bool" where
  "isWhiteSpace c = (code c \<in> {9, 10, 11, 12, 13, 32, 160})"

definition trim :: "string \<Rightarrow> string" where
  "trim s = rev (dropWhile isWhiteSpace (rev (dropWhile isWhiteSpace s)))"

definition toLowerChar :: "char \<Rightarrow> char" where
  "toLowerChar c =
     (if (65 \<le> code c \<and> code c \<le> 90) \<or> (192 \<le> code c \<and> code c \<le> 222 \<and> code c \<noteq> 215)
      then char_of (code c + 32) else c)"

definition toLowerCase :: "string \<Rightarrow> string" where
  "toLowerCase s = map toLowerChar s"

definition isDigit :: "char \<Rightarrow> bool" where
  "isDigit c = (48 \<le> code c \<and> code c \<le> 57)"

definition isLetter :: "char \<Rightarrow> bool" where
  "isLetter c = ((65 \<le> code c \<and> code c \<le> 90) \<or> (97 \<le> code c \<and> code c \<le> 122))"

definition isAlnum :: "char \<Rightarrow> bool" where
  "isAlnum c = (isLetter c \<or> isDigit c)"

text \<open>\<^verbatim>\<open>s.split(d)\<close> for a separator of one code unit.\<close>

fun splitOn :: "char \<Rightarrow> string \<Rightarrow> string list" where
  "splitOn d [] = [[]]"
| "splitOn d (c # cs) =
     (if c = d then [] # splitOn d cs
      else (case splitOn d cs of p # ps \<Rightarrow> (c # p) # ps | [] \<Rightarrow> [[c]]))"


section \<open>The text validator\<close>

datatype Encoding = Utf8 | Ascii | Latin1

text \<open>
  The options of the text validator after its defaults are applied; \<open>text_maxLines\<close> is
  \<open>None\<close> for \<^verbatim>\<open>Infinity\<close>, and \<open>text_timeout\<close> is \<open>None\<close> when no timeout is given.
\<close>

record TextOptions =
  text_minLength :: int
  text_maxLength :: int
  text_allowEmpty :: bool
  text_trimWhitespace :: bool
  text_allowedCharacters :: "regex option"
  text_forbiddenPatterns :: "regex list"
  text_encoding :: Encoding
  text_preventXSS :: bool
  text_preventSQLInjection :: bool
  text_preventLDAPInjection :: bool
  text_preventCommandInjection :: bool
  text_normalizeUnicode :: bool
  text_maxLines :: "int option"
  text_requireAlphanumeric :: bool
  text_allowHTML :: bool
  text_stripHTML :: bool
  text_timeout :: "int option"

definition defaultTextOptions :: "SecurityConstants \<Rightarrow> TextOptions" where
  "defaultTextOptions K =
     \<lparr>text_minLength = 0, text_maxLength = MAX_TEXT_LENGTH K, text_allowEmpty = True,
      text_trimWhitespace = False, text_allowedCharacters = None,
      text_forbiddenPatterns = [], text_encoding = Utf8, text_preventXSS = True,
      text_preventSQLInjection = True, text_preventLDAPInjection = False,
      text_preventCommandInjection = False, text_normalizeUnicode = False,
      text_maxLines = None, text_requireAlphanumeric = False, text_allowHTML = False,
      text_stripHTML = False, text_timeout = None\<rparr>"

text \<open>\<^verbatim>\<open>/[\x00-\x08\x0B\x0C\x0E-\x1F\x7F-\x9F]/\<close>\<close>

definition isControl :: "char \<Rightarrow> bool" where
  "isControl c =
     (code c \<le> 8 \<or> code c = 11 \<or> code c = 12 \<or> (14 \<le> code c \<and> code c \<le> 31)
      \<or> (127 \<le> code c \<and> code c \<le> 159))"

text \<open>
  The accumulating stages of \<^verbatim>\<open>validateTextSync\<close>, from the minimum length to the null
  byte check, on the text as trimmed and normalised. Every error carries the original
  \<open>val\<close>. A loop over a pattern list that stops at its first match adds its error (or
  warning) once when some pattern matches.
\<close>

definition textChecks ::
    "SecurityConstants \<Rightarrow> TextOptions \<Rightarrow> jsval \<Rightarrow> string \<Rightarrow> SchemaValidationResult \<Rightarrow> SchemaValidationResult" where
  "textChecks K opts val text result =
     (let r1 = failIf (int (length text) < text_minLength opts)
                 (createStringError []
                   (''Text must be at least '' @ show_int (text_minLength opts) @ '' characters long'')
                   val STRING_TOO_SHORT) result;
          r2 = (case text_maxLines opts of
                  None \<Rightarrow> r1
                | Some maxLines \<Rightarrow>
                    if int (length (splitOn CHR 0x0A text)) > maxLines then
                      failWith (createStringError []
                        (''Text cannot exceed '' @ show_int maxLines @ '' lines'')
                        val STRING_TOO_LONG) r1
                    else r1);
          r3 = failIf (text_encoding opts = Ascii \<and> \<not> list_all (\<lambda>c. code c \<le> 127) text)
                 (createStringError [] ''Text contains non-ASCII characters''
                   val INVALID_STRING_FORMAT) r2;
          r4 = failIf (text_requireAlphanumeric opts
                         \<and> \<not> list_all (\<lambda>c. isAlnum c \<or> isWhiteSpace c) text)
                 (createStringError []
                   ''Text must contain only alphanumeric characters and spaces''
                   val INVALID_STRING_FORMAT) r3;
          r5 = (case text_allowedCharacters opts of
                  Some allowedCharacters \<Rightarrow>
                    if \<not> allowedCharacters text then
                      failWith (createStringError [] ''Text contains disallowed characters''
                        val INVALID_STRING_FORMAT) r4
                    else r4
                | None \<Rightarrow> r4);
          r6 = failIf (list_ex (\<lambda>pattern. pattern text) (text_forbiddenPatterns opts))
                 (createStringError [] ''Text contains forbidden pattern''
                   val PATTERN_MISMATCH) r5;
          r7 = (if text_preventXSS opts \<and> \<not> text_allowHTML opts then
                  (let x1 = failIf (list_ex (\<lambda>pattern. pattern text) (XSS_PATTERNS K))
                              (createStringError []
                                ''Text contains potentially malicious content (XSS)''
                                val INVALID_STRING_FORMAT) r6
                   in if includesStr text ''javascript:'' \<or> includesStr text ''data:text/html'' then
                        failWith (createStringError [] ''Text contains dangerous URI schemes''
                          val INVALID_STRING_FORMAT) x1
                      else x1)
                else r6);
          r8 = warnIf (text_preventSQLInjection opts
                         \<and> list_ex (\<lambda>pattern. pattern text) (SQL_PATTERNS K))
                 ''Text contains SQL-like patterns'' r7;
          r9 = failIf (text_preventLDAPInjection opts
                         \<and> list_ex (\<lambda>pattern. pattern text) (LDAP_PATTERNS K))
                 (createStringError [] ''Text contains LDAP injection patterns''
                   val INVALID_STRING_FORMAT) r8;
          r10 = failIf (text_preventCommandInjection opts
                          \<and> list_ex (\<lambda>pattern. pattern text) (COMMAND_INJECTION_PATTERNS K))
                  (createStringError [] ''Text contains command injection patterns''
                    val INVALID_STRING_FORMAT) r9;
          r11 = warnIf (list_ex isControl text)
                  ''Text contains control characters'' r10
      in if includesStr text [CHR 0x00] then
           failWith (createStringError [] ''Text contains null bytes'' val INVALID_STRING_FORMAT) r11
         else r11)"

text \<open>
  \<^verbatim>\<open>validateTextSync(value, options)\<close>. \<open>nfc\<close> is \<^verbatim>\<open>text.normalize("NFC")\<close>, \<open>None\<close> when
  it throws (the code catches that and warns).
\<close>

definition validateTextSync ::
    "SecurityConstants \<Rightarrow> (string \<Rightarrow> string option) \<Rightarrow> jsval \<Rightarrow> TextOptions \<Rightarrow> SchemaValidationResult" where
  "validateTextSync K nfc val opts =
     (let result = newResult val in
      case val of
        JStr s \<Rightarrow>
          if int (length s) > text_maxLength opts then
            failWith (createStringError []
              (''Text exceeds maximum length of '' @ show_int (text_maxLength opts) @ '' characters'')
              val STRING_TOO_LONG) result
          else
            (let (text1, r1) =
                   (if text_trimWhitespace opts \<and> trim s \<noteq> s then
                      (trim s, warn ''Whitespace trimmed from text'' (result\<lparr>data := JStr (trim s)\<rparr>))
                    else (s, result));
                 (text2, r2) =
                   (if text_normalizeUnicode opts then
                      (case nfc text1 of
                         Some normalized \<Rightarrow>
                           if normalized \<noteq> text1 then
                             (normalized,
                              warn ''Unicode characters normalized'' (r1\<lparr>data := JStr normalized\<rparr>))
                           else (text1, r1)
                       | None \<Rightarrow> (text1, warn ''Unicode normalization failed'' r1))
                    else (text1, r1))
             in if \<not> text_allowEmpty opts \<and> length text2 = 0 then
                  failWith (createStringError [] ''Text cannot be empty'' val STRING_TOO_SHORT) r2
                else textChecks K opts val text2 r2)
      | _ \<Rightarrow> failWith (createTypeError [] ''string'' val) result)"

text \<open>
  \<^verbatim>\<open>validateText(value, options)\<close>: \<^verbatim>\<open>validateTextSync\<close> raced against the timer of
  \<^verbatim>\<open>withTimeout\<close>, all of it inside a \<^verbatim>\<open>try\<close> whose \<^verbatim>\<open>catch\<close> builds a result from the error.
  \<open>timerFirst\<close> says whether the timer settles the race. The recording of metrics does
  not bear on what is returned and is left out.
\<close>

definition validateText ::
    "SecurityConstants \<Rightarrow> (string \<Rightarrow> string option) \<Rightarrow> jsval \<Rightarrow> TextOptions \<Rightarrow> bool
      \<Rightarrow> SchemaValidationResult promise" where
  "validateText K nfc val opts timerFirst =
     (if timerFirst then
        (let error = timeoutError
               (case text_timeout opts of Some t \<Rightarrow> t | None \<Rightarrow> MAX_VALIDATION_TIME K)
         in Resolved
              \<lparr>success = False,
               errors = [createValidationError [] (errorMessage error) UNKNOWN_ERROR],
               warnings = [], data = val\<rparr>)
      else Resolved (validateTextSync K nfc val opts))"

section \<open>The email validator\<close>

record EmailOptions =
  email_allowInternational :: bool
  email_maxLength :: int
  email_allowedDomains :: "string list"
  email_blockedDomains :: "string list"
  email_strict :: bool

definition defaultEmailOptions :: EmailOptions where
  "defaultEmailOptions =
     \<lparr>email_allowInternational = True, email_maxLength = 254, email_allowedDomains = [],
      email_blockedDomains = [], email_strict = True\<rparr>"

text \<open>\<^verbatim>\<open>/^[a-zA-Z0-9._+-]+$/\<close>, the local part in strict mode.\<close>

definition strictLocalChar :: "char \<Rightarrow> bool" where
  "strictLocalChar c = (isAlnum c \<or> c \<in> set ''._+-'')"

definition validLocalPartStrict :: regex where
  "validLocalPartStrict s = (s \<noteq> [] \<and> list_all strictLocalChar s)"

text \<open>
  \<^verbatim>\<open>/^[a-zA-Z0-9!#$%&'*+/=?^_`{|}~-]+(?:\.[a-zA-Z0-9!#$%&'*+/=?^_`{|}~-]+)*$/\<close>: the pieces
  between dots are non-empty and made of the characters of the class. The class is
  written by code unit: \<^verbatim>\<open>!\<close> 33, \<^verbatim>\<open>#$%&'\<close> 35-39, \<^verbatim>\<open>*+\<close> 42-43, \<^verbatim>\<open>-\<close> 45, \<^verbatim>\<open>/\<close> 47,
  \<^verbatim>\<open>=\<close> 61, \<^verbatim>\<open>?\<close> 63, \<^verbatim>\<open>^_`\<close> 94-96, \<^verbatim>\<open>{|}~\<close> 123-126.
\<close>

definition atext :: "char \<Rightarrow> bool" where
  "atext c =
     (isAlnum c \<or> code c = 33 \<or> (35 \<le> code c \<and> code c \<le> 39) \<or> code c = 42 \<or> code c = 43
      \<or> code c = 45 \<or> code c = 47 \<or> code c = 61 \<or> code c = 63
      \<or> (94 \<le> code c \<and> code c \<le> 96) \<or> (123 \<le> code c \<and> code c \<le> 126))"

definition validLocalPartRfc :: regex where
  "validLocalPartRfc s = list_all (\<lambda>piece. piece \<noteq> [] \<and> list_all atext piece) (splitOn CHR ''.'' s)"

text \<open>
  \<^verbatim>\<open>/^[a-zA-Z0-9.-]+\.[a-zA-Z]{2,}$/\<close>: the letters after the last dot are at least two,
  and what stands before that dot is non-empty and made of letters, digits, dots and
  hyphens.
\<close>

definition validDomainStrict :: regex where
  "validDomainStrict s =
     (let tld = rev (takeWhile (\<lambda>c. c \<noteq> CHR ''.'') (rev s));
          rest = dropWhile (\<lambda>c. c \<noteq> CHR ''.'') (rev s)
      in rest \<noteq> [] \<and> tl rest \<noteq> []
         \<and> list_all (\<lambda>c. isAlnum c \<or> c = CHR ''.'' \<or> c = CHR ''-'') (tl rest)
         \<and> 2 \<le> length tld \<and> list_all isLetter tld)"

text \<open>
  \<^verbatim>\<open>/^[a-zA-Z0-9](?:[a-zA-Z0-9-]{0,61}[a-zA-Z0-9])?(?:\.[a-zA-Z0-9](?:[a-zA-Z0-9-]{0,61}[a-zA-Z0-9])?)*$/\<close>:
  every label between dots has 1 to 63 characters, letters, digits and hyphens, and
  neither starts nor ends with a hyphen.
\<close>

definition validLabel :: "string \<Rightarrow> bool" where
  "validLabel l =
     (l \<noteq> [] \<and> length l \<le> 63 \<and> isAlnum (hd l) \<and> isAlnum (last l)
      \<and> list_all (\<lambda>c. isAlnum c \<or> c = CHR ''-'') l)"

definition validDomainLabels :: regex where
  "validDomainLabels s = list_all validLabel (splitOn CHR ''.'' s)"

text \<open>\<^verbatim>\<open>/[<>()[\]\\,;:\s@"]/\<close>\<close>

definition prohibitedLocalChar :: "char \<Rightarrow> bool" where
  "prohibitedLocalChar c = (c \<in> set ''<>()[],;:@'' \<or> code c = 92 \<or> code c = 34 \<or> isWhiteSpace c)"

text \<open>\<^verbatim>\<open>/test|temp|fake|spam|noreply/i\<close>\<close>

definition looksDisposable :: regex where
  "looksDisposable s =
     (let l = map asciiLower s
      in includesStr l ''test'' \<or> includesStr l ''temp'' \<or> includesStr l ''fake''
         \<or> includesStr l ''spam'' \<or> includesStr l ''noreply'')"

text \<open>\<^verbatim>\<open>s.endsWith(p)\<close>\<close>

definition endsWith :: "string \<Rightarrow> string \<Rightarrow> bool" where
  "endsWith s p = startsWith (rev s) (rev p)"

text \<open>
  The accumulating part of \<^verbatim>\<open>validateEmail\<close>, from the local part's length to the
  assignment \<^verbatim>\<open>result.data = email\<close> that ends it.
\<close>

definition emailChecks ::
    "EmailOptions \<Rightarrow> string \<Rightarrow> string \<Rightarrow> string \<Rightarrow> SchemaValidationResult \<Rightarrow> SchemaValidationResult" where
  "emailChecks opts email localPart domain result =
     (let r1 = failIf (length localPart > 64)
                 (createValidationError [] ''Email local part exceeds 64 characters''
                   SECURITY_VIOLATION) result;
          r2 = failIf (includesStr localPart ''+'')
                 (createValidationError []
                   ''Plus addressing (+ symbols) is not allowed'' SECURITY_VIOLATION) r1;
          r3 = (if email_strict opts then
                  failIf (\<not> validLocalPartStrict localPart)
                    (createValidationError []
                      ''Email local part contains invalid characters'' SECURITY_VIOLATION) r2
                else
                  failIf (\<not> validLocalPartRfc localPart)
                    (createValidationError []
                      ''Email local part contains invalid characters'' SECURITY_VIOLATION) r2);
          r4 = failIf (includesStr localPart ''..'')
                 (createValidationError []
                   ''Email local part cannot contain consecutive dots'' SECURITY_VIOLATION) r3;
          r5 = failIf (startsWith localPart ''.'' \<or> endsWith localPart ''.'')
                 (createValidationError []
                   ''Email local part cannot start or end with a dot'' SECURITY_VIOLATION) r4;
          r6 = failIf (length domain > 255)
                 (createValidationError [] ''Email domain exceeds 255 characters''
                   SECURITY_VIOLATION) r5;
          r7 = (if email_strict opts then
                  failIf (\<not> validDomainStrict domain)
                    (createValidationError []
                      ''Invalid domain format - must contain at least one dot and valid TLD''
                      SECURITY_VIOLATION) r6
                else
                  failIf (\<not> validDomainLabels domain)
                    (createValidationError [] ''Invalid domain format''
                      SECURITY_VIOLATION) r6);
          r8 = failIf (includesStr domain ''..'')
                 (createValidationError [] ''Domain cannot contain consecutive dots''
                   SECURITY_VIOLATION) r7;
          r9 = failIf (startsWith domain ''.'' \<or> endsWith domain ''.'')
                 (createValidationError [] ''Domain cannot start or end with a dot''
                   SECURITY_VIOLATION) r8;
          r10 = failIf (\<not> email_allowInternational opts \<and> list_ex (\<lambda>c. code c > 127) domain)
                  (createValidationError []
                    ''International domain names are not allowed'' SECURITY_VIOLATION) r9;
          r11 = failIf (length (email_allowedDomains opts) > 0
                          \<and> domain \<notin> set (email_allowedDomains opts))
                  (createValidationError []
                    (''Email domain '' @ quoted domain @ '' is not allowed'') SECURITY_VIOLATION)
                  r10;
          r12 = failIf (domain \<in> set (email_blockedDomains opts))
                  (createValidationError []
                    (''Email domain '' @ quoted domain @ '' is blocked'') SECURITY_VIOLATION) r11;
          r13 = failIf (list_ex prohibitedLocalChar localPart)
                  (createValidationError []
                    ''Email local part contains prohibited characters (spaces, quotes, brackets, etc.)''
                    SECURITY_VIOLATION) r12;
          r14 = warnIf (looksDisposable email)
                  ''Email appears to be temporary or test address'' r13
      in r14\<lparr>data := JStr email\<rparr>)"

text \<open>
  \<^verbatim>\<open>validateEmail(value, options)\<close>. With exactly one \<^verbatim>\<open>@\<close> in \<open>email\<close>,
  \<^verbatim>\<open>email.split("@")\<close> is the pair of what stands before and after it.
\<close>

definition validateEmail :: "jsval \<Rightarrow> EmailOptions \<Rightarrow> SchemaValidationResult" where
  "validateEmail val opts =
     (let result = newResult val in
      case val of
        JStr s \<Rightarrow>
          (let email = toLowerCase (trim s) in
           if int (length email) > email_maxLength opts then
             failWith (createStringError []
               (''Email exceeds maximum length of '' @ show_int (email_maxLength opts) @ '' characters'')
               val STRING_TOO_LONG) result
           else if length (filter (\<lambda>c. c = CHR ''@'') email) \<noteq> 1 then
             failWith (createValidationError [] ''Email must contain exactly one @ symbol''
               SECURITY_VIOLATION) result
           else
             (let localPart = takeWhile (\<lambda>c. c \<noteq> CHR ''@'') email;
                  domain = tl (dropWhile (\<lambda>c. c \<noteq> CHR ''@'') email)
              in if localPart = [] \<or> domain = [] then
                   failWith (createValidationError []
                     ''Email local part and domain cannot be empty'' SECURITY_VIOLATION) result
                 else emailChecks opts email localPart domain result))
      | _ \<Rightarrow> failWith (createTypeError [] ''string'' val) result)"


section \<open>The IP validator\<close>

datatype IpVersion = V4 | V6 | Both

record IpOptions =
  ip_version :: IpVersion
  ip_allowPrivate :: bool
  ip_allowLoopback :: bool
  ip_allowMulticast :: bool
  ip_allowReserved :: bool
  ip_allowCIDR :: bool
  ip_strict :: bool
  ip_blockBogons :: bool
  ip_allowDocumentation :: bool

definition defaultIpOptions :: IpOptions where
  "defaultIpOptions =
     \<lparr>ip_version = Both, ip_allowPrivate = True, ip_allowLoopback = True,
      ip_allowMulticast = False, ip_allowReserved = True, ip_allowCIDR = False,
      ip_strict = True, ip_blockBogons = False, ip_allowDocumentation = True\<rparr>"

text \<open>
  \<^verbatim>\<open>validateIPv4\<close>, \<^verbatim>\<open>validateIPv6\<close> and \<^verbatim>\<open>normalizeIPv6\<close> are imported from
  \<^verbatim>\<open>utils/securityHelpers\<close>, outside the sources; the validator takes them as
  parameters. Of the results of the first two only \<^verbatim>\<open>valid\<close> is read.
\<close>

record IpHelpers =
  validateIPv4 :: "string \<Rightarrow> bool \<Rightarrow> bool"
  validateIPv6 :: "string \<Rightarrow> bool \<Rightarrow> bool"
  normalizeIPv6 :: "string \<Rightarrow> string"

definition isHexLetter :: "char \<Rightarrow> bool" where
  "isHexLetter c = ((97 \<le> code c \<and> code c \<le> 102) \<or> (65 \<le> code c \<and> code c \<le> 70))"

text \<open>\<^verbatim>\<open>/^[\d\.:a-fA-F\/]+$/\<close>\<close>

definition ipCharacters :: regex where
  "ipCharacters s =
     (s \<noteq> [] \<and> list_all (\<lambda>c. isDigit c \<or> c = CHR ''.'' \<or> c = CHR '':'' \<or> isHexLetter c \<or> c = CHR ''/'') s)"

text \<open>\<^verbatim>\<open>/^\d+$/\<close>\<close>

definition allDigits :: regex where
  "allDigits s = (s \<noteq> [] \<and> list_all isDigit s)"

text \<open>The value of a string of decimal digits, and of binary digits.\<close>

definition decimalValue :: "string \<Rightarrow> int" where
  "decimalValue s = foldl (\<lambda>acc c. 10 * acc + int (code c - 48)) 0 s"

definition binaryValue :: "string \<Rightarrow> int" where
  "binaryValue s = foldl (\<lambda>acc c. 2 * acc + int (code c - 48)) 0 s"

text \<open>
  \<^verbatim>\<open>Number(s)\<close> on the strings that reach it, which are made of digits, the letters
  \<^verbatim>\<open>a\<close>-\<^verbatim>\<open>f\<close> and \<^verbatim>\<open>A\<close>-\<^verbatim>\<open>F\<close> and colons: the empty string is 0, decimal digits are their
  value, also with an exponent (\<^verbatim>\<open>1e2\<close>), \<^verbatim>\<open>0b\<close> starts a binary literal, and every other
  string is \<^verbatim>\<open>NaN\<close>, here \<open>None\<close>. The octets are only compared with small constants, for
  which the integer stands for the number read.
\<close>

definition toNumber :: "string \<Rightarrow> int option" where
  "toNumber s =
     (let mantissa = takeWhile isDigit s; rest = dropWhile isDigit s in
      if s = [] then Some 0
      else if rest = [] then Some (decimalValue s)
      else if mantissa \<noteq> [] \<and> (hd rest = CHR ''e'' \<or> hd rest = CHR ''E'') \<and> allDigits (tl rest) then
        Some (decimalValue mantissa * 10 ^ nat (decimalValue (tl rest)))
      else if mantissa = ''0'' \<and> (hd rest = CHR ''b'' \<or> hd rest = CHR ''B'')
              \<and> tl rest \<noteq> [] \<and> list_all (\<lambda>c. c = CHR ''0'' \<or> c = CHR ''1'') (tl rest) then
        Some (binaryValue (tl rest))
      else None)"

text \<open>
  \<^verbatim>\<open>octets[i]\<close> compared with a constant: a comparison with \<^verbatim>\<open>NaN\<close> or with the
  \<^verbatim>\<open>undefined\<close> beyond the end of the array is false.
\<close>

definition octet :: "int option list \<Rightarrow> nat \<Rightarrow> int option" where
  "octet octets i = (if i < length octets then octets ! i else None)"

definition eqN :: "int option \<Rightarrow> int \<Rightarrow> bool" where
  "eqN x n = (x = Some n)"

definition geN :: "int option \<Rightarrow> int \<Rightarrow> bool" where
  "geN x n = (case x of Some v \<Rightarrow> v \<ge> n | None \<Rightarrow> False)"

definition leN :: "int option \<Rightarrow> int \<Rightarrow> bool" where
  "leN x n = (case x of Some v \<Rightarrow> v \<le> n | None \<Rightarrow> False)"

text \<open>The block \<^verbatim>\<open>if (isIPv4) { ... }\<close>.\<close>

definition ipv4Checks :: "IpOptions \<Rightarrow> string \<Rightarrow> SchemaValidationResult \<Rightarrow> SchemaValidationResult" where
  "ipv4Checks opts ipAddress result =
     (let octets = map toNumber (splitOn CHR ''.'' ipAddress);
          o0 = octet octets 0; o1 = octet octets 1; o2 = octet octets 2;
          r1 = failIf (\<not> ip_allowPrivate opts
                         \<and> (eqN o0 10 \<or> (eqN o0 172 \<and> geN o1 16 \<and> leN o1 31)
                         \<or> (eqN o0 192 \<and> eqN o1 168) \<or> (eqN o0 169 \<and> eqN o1 254)))
                 (createValidationError [] ''Private IPv4 addresses not allowed''
                   SECURITY_VIOLATION) result;
          r2 = failIf (\<not> ip_allowLoopback opts \<and> eqN o0 127)
                 (createValidationError [] ''Loopback addresses not allowed''
                   SECURITY_VIOLATION) r1;
          r3 = failIf (\<not> ip_allowMulticast opts \<and> geN o0 224 \<and> leN o0 239)
                 (createValidationError [] ''Multicast addresses not allowed''
                   SECURITY_VIOLATION) r2;
          r4 = failIf (\<not> ip_allowDocumentation opts
                         \<and> ((eqN o0 192 \<and> eqN o1 0 \<and> eqN o2 2) \<or> (eqN o0 198 \<and> eqN o1 51 \<and> eqN o2 100)
                         \<or> (eqN o0 203 \<and> eqN o1 0 \<and> eqN o2 113)))
                 (createValidationError [] ''Documentation addresses not allowed''
                   SECURITY_VIOLATION) r3;
          r5 = failIf (ip_blockBogons opts \<and> (eqN o0 0 \<or> eqN o0 255 \<or> (geN o0 240 \<and> leN o0 255)))
                 (createValidationError [] ''Bogon IP address detected''
                   SECURITY_VIOLATION) r4
      in if \<not> ip_allowReserved opts \<and> (eqN o0 0 \<or> eqN o0 255) then
           failWith (createValidationError [] ''Reserved IPv4 addresses not allowed''
             SECURITY_VIOLATION) r5
         else r5)"

text \<open>The block \<^verbatim>\<open>if (isIPv6) { ... }\<close>.\<close>

definition ipv6Checks ::
    "IpHelpers \<Rightarrow> IpOptions \<Rightarrow> string \<Rightarrow> SchemaValidationResult \<Rightarrow> SchemaValidationResult" where
  "ipv6Checks H opts ipAddress result =
     (let normalized = normalizeIPv6 H ipAddress;
          r1 = failIf (\<not> ip_allowLoopback opts
                         \<and> normalized = ''0000:0000:0000:0000:0000:0000:0000:0001'')
                 (createValidationError [] ''IPv6 loopback address not allowed''
                   SECURITY_VIOLATION) result;
          r2 = failIf (\<not> ip_allowPrivate opts
                         \<and> (startsWith normalized ''fc00:'' \<or> startsWith normalized ''fd00:''))
                 (createValidationError [] ''Private IPv6 addresses not allowed''
                   SECURITY_VIOLATION) r1;
          r3 = failIf (\<not> ip_allowPrivate opts \<and> startsWith normalized ''fe80:'')
                 (createValidationError [] ''Link-local IPv6 addresses not allowed''
                   SECURITY_VIOLATION) r2;
          r4 = failIf (\<not> ip_allowMulticast opts \<and> startsWith normalized ''ff00:'')
                 (createValidationError [] ''IPv6 multicast addresses not allowed''
                   SECURITY_VIOLATION) r3
      in if \<not> ip_allowDocumentation opts \<and> startsWith normalized ''2001:0db8:'' then
           failWith (createValidationError [] ''Documentation IPv6 addresses not allowed''
             SECURITY_VIOLATION) r4
         else r4)"

text \<open>
  What \<^verbatim>\<open>validateIp\<close> does once the address is separated from an optional prefix
  (\<open>cidrPrefix\<close> is \<open>None\<close> for \<^verbatim>\<open>null\<close>): the version checks, which return, then the
  accumulating checks.
\<close>

definition ipChecks ::
    "IpHelpers \<Rightarrow> IpOptions \<Rightarrow> string \<Rightarrow> int option \<Rightarrow> SchemaValidationResult \<Rightarrow> SchemaValidationResult" where
  "ipChecks H opts ipAddress cidrPrefix result =
     (let isIPv4 = validateIPv4 H ipAddress (ip_strict opts);
          isIPv6 = validateIPv6 H ipAddress (ip_strict opts)
      in if ip_version opts = V4 \<and> \<not> isIPv4 then
           failWith (createValidationError [] ''Invalid IPv4 address format'' SECURITY_VIOLATION) result
         else if ip_version opts = V6 \<and> \<not> isIPv6 then
           failWith (createValidationError [] ''Invalid IPv6 address format'' SECURITY_VIOLATION) result
         else if ip_version opts = Both \<and> \<not> isIPv4 \<and> \<not> isIPv6 then
           failWith (createValidationError []
             ''Invalid IP address format (must be valid IPv4 or IPv6)'' SECURITY_VIOLATION) result
         else
           (let r1 = (case cidrPrefix of
                        None \<Rightarrow> result
                      | Some prefix \<Rightarrow>
                          (let c1 = failIf (isIPv4 \<and> (prefix < 0 \<or> prefix > 32))
                                      (createValidationError []
                                        ''Invalid IPv4 CIDR prefix (must be 0-32)''
                                        SECURITY_VIOLATION) result
                           in if isIPv6 \<and> (prefix < 0 \<or> prefix > 128) then
                                failWith (createValidationError []
                                  ''Invalid IPv6 CIDR prefix (must be 0-128)''
                                  SECURITY_VIOLATION) c1
                              else c1));
                r2 = (if isIPv4 then ipv4Checks opts ipAddress r1 else r1)
            in if isIPv6 then ipv6Checks H opts ipAddress r2 else r2))"

text \<open>\<^verbatim>\<open>validateIp(value, options)\<close>\<close>

definition validateIp :: "IpHelpers \<Rightarrow> jsval \<Rightarrow> IpOptions \<Rightarrow> SchemaValidationResult" where
  "validateIp H val opts =
     (let result = newResult val in
      case val of
        JStr s \<Rightarrow>
          (let ip = trim s in
           if \<not> ipCharacters ip then
             failWith (createValidationError [] ''IP address contains invalid characters''
               SECURITY_VIOLATION) result
           else if includesStr ip ''/'' then
             (if \<not> ip_allowCIDR opts then
                failWith (createValidationError [] ''CIDR notation is not allowed''
                  SECURITY_VIOLATION) result
              else
                (let parts = splitOn CHR ''/'' ip in
                 if length parts \<noteq> 2 then
                   failWith (createValidationError [] ''Invalid CIDR notation format''
                     SECURITY_VIOLATION) result
                 else if \<not> allDigits (parts ! 1) then
                   failWith (createValidationError [] ''CIDR prefix must be numeric''
                     SECURITY_VIOLATION) result
                 else ipChecks H opts (parts ! 0) (Some (decimalValue (parts ! 1))) result))
           else ipChecks H opts ip None result)
      | _ \<Rightarrow> failWith (createSimpleError ''Expected string for IP address'' [] ''string'') result)"

text \<open>
  Modelled from the spec: \<^verbatim>\<open>validateIPv4\<close>, \<^verbatim>\<open>validateIPv6\<close> and \<^verbatim>\<open>normalizeIPv6\<close>, which the
  sources do not hold. The specification says that they validate IPv4 and IPv6 literal
  syntax, strictly or loosely. An IPv4 literal is four decimal octets of at most three
  digits and value at most 255, separated by dots (strictly: without a leading zero);
  an IPv6 literal is made of groups of one to four hexadecimal digits separated by
  colons, eight of them, or at most seven around one \<^verbatim>\<open>::\<close>. The normal form of an IPv6 literal is
  not modelled. Used where a statement needs a concrete instance of the helpers.
\<close>

definition specOctet :: "bool \<Rightarrow> string \<Rightarrow> bool" where
  "specOctet strict s =
     (allDigits s \<and> length s \<le> 3 \<and> decimalValue s \<le> 255
      \<and> (if strict then length s = 1 \<or> hd s \<noteq> CHR ''0'' else True))"

definition specValidateIPv4 :: "string \<Rightarrow> bool \<Rightarrow> bool" where
  "specValidateIPv4 s strict =
     (length (splitOn CHR ''.'' s) = 4 \<and> list_all (specOctet strict) (splitOn CHR ''.'' s))"

definition specGroups :: "string \<Rightarrow> bool" where
  "specGroups s =
     list_all (\<lambda>g. g \<noteq> [] \<and> length g \<le> 4 \<and> list_all (\<lambda>c. isDigit c \<or> isHexLetter c) g)
       (splitOn CHR '':'' s)"

text \<open>What stands before and after the first \<^verbatim>\<open>::\<close> of a string, if it has one.\<close>

fun breakDouble :: "string \<Rightarrow> (string \<times> string) option" where
  "breakDouble (a # b # cs) =
     (if a = CHR '':'' \<and> b = CHR '':'' then Some ([], cs)
      else map_option (\<lambda>(l, r). (a # l, r)) (breakDouble (b # cs)))"
| "breakDouble [a] = None"
| "breakDouble [] = None"

definition groupCount :: "string \<Rightarrow> nat" where
  "groupCount s = (if s = [] then 0 else length (splitOn CHR '':'' s))"

definition specValidateIPv6 :: "string \<Rightarrow> bool \<Rightarrow> bool" where
  "specValidateIPv6 s strict =
     (case breakDouble s of
        None \<Rightarrow> specGroups s \<and> groupCount s = 8
      | Some (l, r) \<Rightarrow>
          breakDouble r = None \<and> (l = [] \<or> specGroups l) \<and> (r = [] \<or> specGroups r)
          \<and> groupCount l + groupCount r \<le> 7)"

definition specIpHelpers :: IpHelpers where
  "specIpHelpers =
     \<lparr>validateIPv4 = specValidateIPv4, validateIPv6 = specValidateIPv6,
      normalizeIPv6 = (\<lambda>s. s)\<rparr>"

section \<open>The batch orchestrator\<close>

record BatchOptions =
  batch_continueOnError :: bool
  batch_maxConcurrency :: int
  batch_timeout :: int

definition defaultBatchOptions :: BatchOptions where
  "defaultBatchOptions =
     \<lparr>batch_continueOnError = True, batch_maxConcurrency = 10, batch_timeout = 30000\<rparr>"











section \<open>The JSON validator\<close>

datatype SecurityMode = Fast | Secure | Strict

record JsonOptions =
  json_maxDepth :: int
  json_maxKeys :: int
  json_maxStringLength :: int
  json_maxArrayLength :: int
  json_allowedTypes :: "string list"
  json_forbiddenKeys :: "string list"
  json_schema :: jsval
  json_preventCircular :: bool
  json_maxSize :: int
  json_securityMode :: SecurityMode
  json_timeout :: "int option"
  json_useCache :: bool


text \<open>The answer of the compiled schema \<^verbatim>\<open>secure-json-v2\<close>, with its serialised errors if any.\<close>

datatype AjvOutcome = AjvValid | AjvInvalid "string option"

text \<open>
  What the validator calls and the sources do not hold. \<open>JSON_parse\<close> is \<^verbatim>\<open>JSON.parse\<close>:
  the message of the \<^verbatim>\<open>SyntaxError\<close>, or the heap with the parsed structure and the value.
  \<open>JSON_serialize\<close> is \<^verbatim>\<open>JSON.stringify\<close> on a value other than \<^verbatim>\<open>undefined\<close> and a function:
  the text, or what it throws (on a cyclic structure). \<open>serializeOptions\<close> is
  \<^verbatim>\<open>JSON.stringify(options)\<close>. \<open>ajvSecureJson\<close> is \<^verbatim>\<open>getAjv().getSchema("secure-json-v2")\<close>,
  \<open>None\<close> when there is none. \<open>validateJsonDeep\<close> and \<open>validateJsonSchema\<close> are imported
  from \<^verbatim>\<open>utils/securityHelpers\<close>, \<open>cacheSet\<close> is \<^verbatim>\<open>ValidationCache.set\<close>.
\<close>

type_synonym cache = "string \<Rightarrow> SchemaValidationResult option"

record JsonHelpers =
  JSON_parse :: "heap \<Rightarrow> string \<Rightarrow> string + heap \<times> jsval"
  JSON_serialize :: "heap \<Rightarrow> jsval \<Rightarrow> thrown + string"
  serializeOptions :: "JsonOptions \<Rightarrow> thrown + string"
  ajvSecureJson :: "(heap \<Rightarrow> jsval \<Rightarrow> AjvOutcome) option"
  validateJsonDeep :: "heap \<Rightarrow> jsval \<Rightarrow> JsonOptions \<Rightarrow> int \<Rightarrow> int \<Rightarrow> SchemaValidationResult"
  validateJsonSchema :: "heap \<Rightarrow> jsval \<Rightarrow> jsval \<Rightarrow> SchemaValidationResult"
  cacheSet :: "cache \<Rightarrow> string \<Rightarrow> SchemaValidationResult \<Rightarrow> cache"

text \<open>
  \<^verbatim>\<open>JSON.stringify(value)\<close>: \<^verbatim>\<open>undefined\<close> (here \<open>None\<close>) for \<^verbatim>\<open>undefined\<close> and for a
  function, a text or an exception otherwise.
\<close>

definition JSON_stringify :: "JsonHelpers \<Rightarrow> heap \<Rightarrow> jsval \<Rightarrow> thrown + string option" where
  "JSON_stringify H h v =
     (case v of
        JUndefined \<Rightarrow> Inr None
      | JFunction \<Rightarrow> Inr None
      | _ \<Rightarrow> (case JSON_serialize H h v of Inl e \<Rightarrow> Inl e | Inr s \<Rightarrow> Inr (Some s)))"

text \<open>
  The checks of \<^verbatim>\<open>validateJsonSync\<close> on the parsed data: the security mode, the probe for
  circular references (a serialisation that throws), the deep validation, after which
  \<^verbatim>\<open>result.data = parsedData\<close>, and the schema.
\<close>

definition jsonChecks ::
    "SecurityConstants \<Rightarrow> JsonHelpers \<Rightarrow> heap \<Rightarrow> jsval \<Rightarrow> JsonOptions \<Rightarrow> SchemaValidationResult
      \<Rightarrow> SchemaValidationResult" where
  "jsonChecks K H h parsedData opts result =
     (let guarded = (json_securityMode opts = Secure \<or> json_securityMode opts = Strict);
          strictAnswer =
            (if guarded \<and> json_securityMode opts = Strict then
               (case ajvSecureJson H of Some validate \<Rightarrow> validate h parsedData | None \<Rightarrow> AjvValid)
             else AjvValid)
      in if guarded \<and> fst (hasDangerousProperties K h parsedData {}) then
           failWith (createValidationError []
             ''JSON contains dangerous properties (prototype pollution risk)'' INVALID_JSON) result
         else
           (case strictAnswer of
              AjvInvalid ajvErrors \<Rightarrow>
                (let r = failWith (createValidationError []
                           ''JSON failed strict security validation'' INVALID_JSON) result
                 in case ajvErrors of
                      Some text \<Rightarrow> warn (''AJV errors: '' @ text) r
                    | None \<Rightarrow> r)
            | AjvValid \<Rightarrow>
                if json_preventCircular opts \<and> isl (JSON_stringify H h parsedData) then
                  failWith (createValidationError [] ''JSON contains circular references''
                    INVALID_JSON) result
                else
                  (let r1 = (mergeResult (validateJsonDeep H h parsedData opts 0 0) result)
                              \<lparr>data := parsedData\<rparr>
                   in if truthy (json_schema opts) \<and> success r1 then
                        mergeResult (validateJsonSchema H h parsedData (json_schema opts)) r1
                      else r1)))"

text \<open>
  \<^verbatim>\<open>validateJsonSync(value, options)\<close>, with the heap in which the result's data lives
  (parsing a string allocates the parsed structure).
\<close>

definition validateJsonSync ::
    "SecurityConstants \<Rightarrow> JsonHelpers \<Rightarrow> heap \<Rightarrow> jsval \<Rightarrow> JsonOptions \<Rightarrow> heap \<times> SchemaValidationResult" where
  "validateJsonSync K H h val opts =
     (let result = newResult val in
      case val of
        JStr s \<Rightarrow>
          if int (length s) > json_maxSize opts then
            (h, failWith (createStringError []
                  (''JSON string exceeds maximum size of '' @ show_int (json_maxSize opts) @ '' characters'')
                  val STRING_TOO_LONG) result)
          else
            (case JSON_parse H h s of
               Inl message \<Rightarrow>
                 (h, failWith (createValidationError [] (''Invalid JSON string: '' @ message)
                       INVALID_JSON) result)
             | Inr (h', parsedData) \<Rightarrow> (h', jsonChecks K H h' parsedData opts result))
      | JRef a \<Rightarrow> (h, jsonChecks K H h val opts result)
      | _ \<Rightarrow> (h, failWith (createTypeError [] ''string or object'' val) result))"

text \<open>
  The cache key of \<^verbatim>\<open>validateJson\<close>, computed before its \<^verbatim>\<open>try\<close>:
  \<^verbatim>\<open>options.useCache ? `json_${JSON.stringify(value).substring(0, 100)}_${JSON.stringify(options)}` : null\<close>.
  Calling \<^verbatim>\<open>substring\<close> on \<^verbatim>\<open>undefined\<close> throws a \<^verbatim>\<open>TypeError\<close>.
\<close>

definition cacheKeyOf :: "JsonHelpers \<Rightarrow> heap \<Rightarrow> jsval \<Rightarrow> JsonOptions \<Rightarrow> thrown + string option" where
  "cacheKeyOf H h val opts =
     (if json_useCache opts then
        (case JSON_stringify H h val of
           Inl e \<Rightarrow> Inl e
         | Inr None \<Rightarrow>
             Inl (TypeErrorObject ''Cannot read properties of undefined (reading 'substring')'')
         | Inr (Some text) \<Rightarrow>
             (case serializeOptions H opts of
                Inl e \<Rightarrow> Inl e
              | Inr optionsText \<Rightarrow> Inr (Some (''json_'' @ take 100 text @ ''_'' @ optionsText))))
      else Inr None)"

text \<open>
  \<^verbatim>\<open>validateJson(value, options)\<close>, with the heap and the cache it leaves. \<open>timerFirst\<close>
  says whether the timer of \<^verbatim>\<open>withTimeout\<close> settles its race; the \<^verbatim>\<open>catch\<close> then builds the
  result, with the name of the error as its code. The recording of metrics does not
  bear on what is returned and is left out.
\<close>

definition validateJson ::
    "SecurityConstants \<Rightarrow> JsonHelpers \<Rightarrow> cache \<Rightarrow> heap \<Rightarrow> jsval \<Rightarrow> JsonOptions \<Rightarrow> bool
      \<Rightarrow> (heap \<times> cache \<times> SchemaValidationResult) promise" where
  "validateJson K H cache h val opts timerFirst =
     (case cacheKeyOf H h val opts of
        Inl e \<Rightarrow> Rejected e
      | Inr cacheKey \<Rightarrow>
          (case (case cacheKey of Some k \<Rightarrow> cache k | None \<Rightarrow> None) of
             Some cached \<Rightarrow> Resolved (h, cache, cached)
           | None \<Rightarrow>
               if timerFirst then
                 (let error = timeoutError
                        (case json_timeout opts of Some t \<Rightarrow> t | None \<Rightarrow> MAX_VALIDATION_TIME K)
                  in Resolved (h, cache,
                       \<lparr>success = False,
                        errors = [createValidationError [] (errorMessage error)
                                    (ERROR_NAME (errorName error))],
                        warnings = [], data = val\<rparr>))
               else
                 (let (h', result) = validateJsonSync K H h val opts;
                      cache' = (case cacheKey of
                                  Some k \<Rightarrow> if success result then cacheSet H cache k result else cache
                                | None \<Rightarrow> cache)
                  in Resolved (h', cache', result))))"

section \<open>Sample inputs\<close>

text \<open>
  Concrete helpers and heaps at which the statements below are evaluated: helpers that
  reject, and that accept, every object; a cyclic object graph; and the object
  \<^verbatim>\<open>{"__proto__": {}}\<close> as a parser builds it, with \<^verbatim>\<open>__proto__\<close> as an own property.
\<close>

definition rejectingObjectHelpers :: ObjectHelpers where
  "rejectingObjectHelpers =
     \<lparr>validateObjectDeep = (\<lambda>h v maxDepth depth. failWith (createTypeError [] ''nothing'' v) (newResult v)),
      validateObjectSchema = (\<lambda>h v schema. failWith (createTypeError [] ''nothing'' v) (newResult v))\<rparr>"

definition acceptingObjectHelpers :: ObjectHelpers where
  "acceptingObjectHelpers =
     \<lparr>validateObjectDeep = (\<lambda>h v maxDepth depth. newResult v),
      validateObjectSchema = (\<lambda>h v schema. newResult v)\<rparr>"

definition cyclicHeap :: heap where
  "cyclicHeap =
     [JObject [(''self'', JRef 0), (''next'', JRef 1)],
      JObject [(''back'', JRef 0), (''list'', JRef 2)],
      JArray [JRef 1, JNum 7, JRef 0]]"

definition protoHeap :: heap where
  "protoHeap = [JObject [(''__proto__'', JRef 1)], JObject []]"


section \<open>Facts about values and results\<close>

lemma object_iff_ref: "(truthy v \<and> typeof v = ''object'') = (\<exists>a. v = JRef a)"
  by (cases v) auto

lemma success_failWith [simp]: "success (failWith e r) = False"
  and errors_failWith [simp]: "errors (failWith e r) = errors r @ [e]"
  and warnings_failWith [simp]: "warnings (failWith e r) = warnings r"
  and data_failWith [simp]: "data (failWith e r) = data r"
  by (simp_all add: failWith_def)

lemma success_warn [simp]: "success (warn w r) = success r"
  and errors_warn [simp]: "errors (warn w r) = errors r"
  and warnings_warn [simp]: "warnings (warn w r) = warnings r @ [w]"
  and data_warn [simp]: "data (warn w r) = data r"
  by (simp_all add: warn_def)

lemma success_failIf [simp]: "success (failIf c e r) = (\<not> c \<and> success r)"
  and errors_failIf [simp]: "errors (failIf c e r) = errors r @ (if c then [e] else [])"
  and warnings_failIf [simp]: "warnings (failIf c e r) = warnings r"
  and data_failIf [simp]: "data (failIf c e r) = data r"
  by (simp_all add: failIf_def)

lemma success_warnIf [simp]: "success (warnIf c w r) = success r"
  and errors_warnIf [simp]: "errors (warnIf c w r) = errors r"
  and warnings_warnIf [simp]: "warnings (warnIf c w r) = warnings r @ (if c then [w] else [])"
  and data_warnIf [simp]: "data (warnIf c w r) = data r"
  by (simp_all add: warnIf_def)

lemma success_mergeResult [simp]: "success (mergeResult other r) = (success r \<and> success other)"
  and errors_mergeResult [simp]: "errors (mergeResult other r) = errors r @ errors other"
  and warnings_mergeResult [simp]: "warnings (mergeResult other r) = warnings r @ warnings other"
  and data_mergeResult [simp]: "data (mergeResult other r) = data r"
  by (simp_all add: mergeResult_def)

lemma newResult_sel [simp]:
  "success (newResult v) = True" "errors (newResult v) = []"
  "warnings (newResult v) = []" "data (newResult v) = v"
  by (simp_all add: newResult_def)

section \<open>The claims\<close>

subsection \<open>C1: the cache key of \<^verbatim>\<open>validateJson\<close>\<close>

text \<open>
  C1 fails for \<^verbatim>\<open>validateJson\<close>: with \<^verbatim>\<open>useCache\<close> set and the input \<^verbatim>\<open>undefined\<close>, the cache
  key is computed before the \<^verbatim>\<open>try\<close>, \<^verbatim>\<open>JSON.stringify(undefined)\<close> is \<^verbatim>\<open>undefined\<close>, and
  the call of \<^verbatim>\<open>substring\<close> on it throws: the promise is rejected and no result is
  returned, whatever the helpers, the cache and the other options are. \<^verbatim>\<open>validateText\<close>,
  which does all of its work inside its \<^verbatim>\<open>try\<close>, resolves to a result on every input.
\<close>

theorem validateJson_undefined_with_cache_rejects:
  "validateJson K H cache h JUndefined (opts\<lparr>json_useCache := True\<rparr>) timerFirst =
     Rejected (TypeErrorObject ''Cannot read properties of undefined (reading 'substring')'')
   \<and> (\<exists>result. validateText K nfc val textOpts timerFirst' = Resolved result)"
  by (simp add: validateJson_def cacheKeyOf_def JSON_stringify_def validateText_def Let_def)

subsection \<open>C2: the length guard of the text validator\<close>

text \<open>
  C2. A string longer than the configured \<^verbatim>\<open>maxLength\<close> gets exactly one error, the length
  violation, and no warning, whatever the pattern sets, the normaliser and the other
  options are: the length guard returns before the trim, the normalisation and every
  pattern stage. The data is the input.
\<close>

theorem text_over_maxLength_only_length_error:
  assumes "int (length s) > text_maxLength opts"
  shows "validateTextSync K nfc (JStr s) opts =
           \<lparr>success = False,
            errors = [createStringError []
                        (''Text exceeds maximum length of '' @ show_int (text_maxLength opts)
                           @ '' characters'')
                        (JStr s) STRING_TOO_LONG],
            warnings = [], data = JStr s\<rparr>"
  using assms by (simp add: validateTextSync_def failWith_def newResult_def)

theorem text_over_maxLength_witness:
  "validateTextSync (specConstants\<lparr>XSS_PATTERNS := [\<lambda>text. True], SQL_PATTERNS := [\<lambda>text. True]\<rparr>)
       Some (JStr ''  <script>javascript:x</script>'')
       ((defaultTextOptions specConstants)\<lparr>text_maxLength := 10, text_trimWhitespace := True\<rparr>) =
     \<lparr>success = False,
      errors = [createStringError [] ''Text exceeds maximum length of 10 characters''
                  (JStr ''  <script>javascript:x</script>'') STRING_TOO_LONG],
      warnings = [], data = JStr ''  <script>javascript:x</script>''\<rparr>"
  using text_over_maxLength_only_length_error
    [of "(defaultTextOptions specConstants)\<lparr>text_maxLength := 10, text_trimWhitespace := True\<rparr>"
        "''  <script>javascript:x</script>''"
        "specConstants\<lparr>XSS_PATTERNS := [\<lambda>text. True], SQL_PATTERNS := [\<lambda>text. True]\<rparr>" Some]
  by (simp add: show_int_def digit_def)

subsection \<open>C3: the data of a result\<close>





















subsection \<open>C4: plus addressing\<close>

lemma emailChecks_plus:
  "includesStr localPart ''+'' \<Longrightarrow>
     \<not> success (emailChecks opts email localPart domain r)
     \<and> createValidationError [] ''Plus addressing (+ symbols) is not allowed'' SECURITY_VIOLATION
         \<in> set (errors (emailChecks opts email localPart domain r))"
  by (simp add: emailChecks_def Let_def)

lemma includesStr_char: "includesStr s [c] = (c \<in> set s)"
  by (induction s) auto

text \<open>
  C4. An address whose local part (what stands before the first \<^verbatim>\<open>@\<close> of the trimmed,
  lower-cased input) contains \<^verbatim>\<open>+\<close> fails, in strict mode and out of it. When the address
  passes the guards that return early, the error of the plus-addressing rule is among
  its errors. The character class of the strict local part does admit \<^verbatim>\<open>+\<close>: both checks
  are in the pipeline, and the rejecting one decides.
\<close>

theorem plus_in_local_part_rejected:
  assumes "CHR ''+'' \<in> set (takeWhile (\<lambda>c. c \<noteq> CHR ''@'') (toLowerCase (trim s)))"
  shows "\<not> success (validateEmail (JStr s) opts)
         \<and> (int (length (toLowerCase (trim s))) \<le> email_maxLength opts
              \<and> length (filter (\<lambda>c. c = CHR ''@'') (toLowerCase (trim s))) = 1
              \<and> tl (dropWhile (\<lambda>c. c \<noteq> CHR ''@'') (toLowerCase (trim s))) \<noteq> []
            \<longrightarrow> createValidationError [] ''Plus addressing (+ symbols) is not allowed''
                   SECURITY_VIOLATION
                 \<in> set (errors (validateEmail (JStr s) opts)))
         \<and> validLocalPartStrict (takeWhile (\<lambda>c. c \<noteq> CHR ''@'') (toLowerCase (trim s)))
             = list_all strictLocalChar (takeWhile (\<lambda>c. c \<noteq> CHR ''@'') (toLowerCase (trim s)))
         \<and> strictLocalChar CHR ''+''"
proof -
  let ?email = "toLowerCase (trim s)"
  let ?local = "takeWhile (\<lambda>c. c \<noteq> CHR ''@'') ?email"
  from assms have inc: "includesStr ?local ''+''"
    by (simp add: includesStr_char)
  from assms have ne: "?local \<noteq> []"
    by auto
  show ?thesis
    using emailChecks_plus [OF inc] ne
    by (simp add: validateEmail_def Let_def validLocalPartStrict_def strictLocalChar_def)
qed

theorem plus_in_local_part_rejected_witness:
  "\<not> success (validateEmail (JStr ''  User+Tag@Example.com '') defaultEmailOptions)
   \<and> \<not> success (validateEmail (JStr ''user+tag@example.com'')
          (defaultEmailOptions\<lparr>email_strict := False\<rparr>))
   \<and> createValidationError [] ''Plus addressing (+ symbols) is not allowed'' SECURITY_VIOLATION
       \<in> set (errors (validateEmail (JStr ''  User+Tag@Example.com '') defaultEmailOptions))
   \<and> validLocalPartStrict ''user+tag''"
proof -
  have e: "toLowerCase (trim ''  User+Tag@Example.com '') = ''user+tag@example.com''"
    by (simp add: toLowerCase_def trim_def isWhiteSpace_def toLowerChar_def code_def char_of_eq_iff)
  have e2: "toLowerCase (trim ''user+tag@example.com'') = ''user+tag@example.com''"
    by (simp add: toLowerCase_def trim_def isWhiteSpace_def toLowerChar_def code_def char_of_eq_iff)
  have s: "list_all strictLocalChar ''user+tag''"
    by (simp add: strictLocalChar_def isAlnum_def isLetter_def isDigit_def code_def)
  have strict: "\<not> success (validateEmail (JStr ''  User+Tag@Example.com '') defaultEmailOptions)
      \<and> createValidationError [] ''Plus addressing (+ symbols) is not allowed'' SECURITY_VIOLATION
          \<in> set (errors (validateEmail (JStr ''  User+Tag@Example.com '') defaultEmailOptions))
      \<and> validLocalPartStrict ''user+tag''"
    using plus_in_local_part_rejected [of "''  User+Tag@Example.com ''" defaultEmailOptions] s
    unfolding e by (simp add: defaultEmailOptions_def)
  have loose: "\<not> success (validateEmail (JStr ''user+tag@example.com'')
      (defaultEmailOptions\<lparr>email_strict := False\<rparr>))"
    using plus_in_local_part_rejected [of "''user+tag@example.com''"
        "defaultEmailOptions\<lparr>email_strict := False\<rparr>"]
    unfolding e2 by simp
  from strict loose show ?thesis
    by blast
qed

subsection \<open>C5: three addresses\<close>

lemma toNumber_octets:
  "toNumber ''10'' = Some 10" "toNumber ''0'' = Some 0" "toNumber ''1'' = Some 1"
  "toNumber ''8'' = Some 8"
  by (simp_all add: toNumber_def decimalValue_def isDigit_def code_def)

lemma plain_address:
  "trim ''10.0.0.1'' = ''10.0.0.1''" "ipCharacters ''10.0.0.1''" "\<not> includesStr ''10.0.0.1'' ''/''"
  "trim ''8.8.8.8'' = ''8.8.8.8''" "ipCharacters ''8.8.8.8''" "\<not> includesStr ''8.8.8.8'' ''/''"
  "trim ''300.1.1.1'' = ''300.1.1.1''" "ipCharacters ''300.1.1.1''" "\<not> includesStr ''300.1.1.1'' ''/''"
  by (simp_all add: trim_def isWhiteSpace_def ipCharacters_def isDigit_def code_def)

text \<open>
  C5, as amended. With helpers that take \<^verbatim>\<open>10.0.0.1\<close> and \<^verbatim>\<open>8.8.8.8\<close> for IPv4 literals and
  \<^verbatim>\<open>300.1.1.1\<close> for neither an IPv4 nor an IPv6 literal: \<^verbatim>\<open>10.0.0.1\<close> with
  \<^verbatim>\<open>allowPrivate = false\<close> fails with the one error of the private range, a security
  violation; \<^verbatim>\<open>8.8.8.8\<close> with the default options succeeds; and \<^verbatim>\<open>300.1.1.1\<close> fails with one
  error, the format error, whose code is \<^verbatim>\<open>SECURITY_VIOLATION\<close> as well.
\<close>

theorem validateIp_three_addresses:
  assumes "validateIPv4 H ''10.0.0.1'' True" and "\<not> validateIPv6 H ''10.0.0.1'' True"
    and "validateIPv4 H ''8.8.8.8'' True" and "\<not> validateIPv6 H ''8.8.8.8'' True"
    and "\<not> validateIPv4 H ''300.1.1.1'' True" and "\<not> validateIPv6 H ''300.1.1.1'' True"
  shows "validateIp H (JStr ''10.0.0.1'') (defaultIpOptions\<lparr>ip_allowPrivate := False\<rparr>) =
           \<lparr>success = False,
            errors = [createValidationError [] ''Private IPv4 addresses not allowed''
                        SECURITY_VIOLATION],
            warnings = [], data = JStr ''10.0.0.1''\<rparr>
         \<and> validateIp H (JStr ''8.8.8.8'') defaultIpOptions =
           \<lparr>success = True, errors = [], warnings = [], data = JStr ''8.8.8.8''\<rparr>
         \<and> validateIp H (JStr ''300.1.1.1'') defaultIpOptions =
           \<lparr>success = False,
            errors = [createValidationError []
                        ''Invalid IP address format (must be valid IPv4 or IPv6)''
                        SECURITY_VIOLATION],
            warnings = [], data = JStr ''300.1.1.1''\<rparr>"
proof (intro conjI)
  from assms(1,2)
  show "validateIp H (JStr ''10.0.0.1'') (defaultIpOptions\<lparr>ip_allowPrivate := False\<rparr>) =
      \<lparr>success = False,
       errors = [createValidationError [] ''Private IPv4 addresses not allowed'' SECURITY_VIOLATION],
       warnings = [], data = JStr ''10.0.0.1''\<rparr>"
    by (simp add: validateIp_def plain_address ipChecks_def ipv4Checks_def toNumber_octets octet_def Let_def
        eqN_def geN_def leN_def defaultIpOptions_def failIf_def failWith_def newResult_def)
next
  from assms(3,4)
  show "validateIp H (JStr ''8.8.8.8'') defaultIpOptions =
      \<lparr>success = True, errors = [], warnings = [], data = JStr ''8.8.8.8''\<rparr>"
    by (simp add: validateIp_def plain_address ipChecks_def ipv4Checks_def toNumber_octets octet_def Let_def
        eqN_def geN_def leN_def defaultIpOptions_def failIf_def failWith_def newResult_def)
next
  from assms(5,6)
  show "validateIp H (JStr ''300.1.1.1'') defaultIpOptions =
      \<lparr>success = False,
       errors = [createValidationError []
                   ''Invalid IP address format (must be valid IPv4 or IPv6)'' SECURITY_VIOLATION],
       warnings = [], data = JStr ''300.1.1.1''\<rparr>"
    by (simp add: validateIp_def plain_address ipChecks_def
        defaultIpOptions_def failIf_def failWith_def newResult_def)
qed

lemma spec_helpers_on_addresses:
  "validateIPv4 specIpHelpers ''10.0.0.1'' True" "\<not> validateIPv6 specIpHelpers ''10.0.0.1'' True"
  "validateIPv4 specIpHelpers ''8.8.8.8'' True" "\<not> validateIPv6 specIpHelpers ''8.8.8.8'' True"
  "\<not> validateIPv4 specIpHelpers ''300.1.1.1'' True" "\<not> validateIPv6 specIpHelpers ''300.1.1.1'' True"
  by (simp_all add: specIpHelpers_def specValidateIPv4_def specValidateIPv6_def specOctet_def
      specGroups_def groupCount_def allDigits_def decimalValue_def isDigit_def isHexLetter_def
      code_def)

theorem validateIp_three_addresses_witness:
  "validateIp specIpHelpers (JStr ''10.0.0.1'') (defaultIpOptions\<lparr>ip_allowPrivate := False\<rparr>) =
     \<lparr>success = False,
      errors = [createValidationError [] ''Private IPv4 addresses not allowed'' SECURITY_VIOLATION],
      warnings = [], data = JStr ''10.0.0.1''\<rparr>
   \<and> validateIp specIpHelpers (JStr ''8.8.8.8'') defaultIpOptions =
     \<lparr>success = True, errors = [], warnings = [], data = JStr ''8.8.8.8''\<rparr>
   \<and> validateIp specIpHelpers (JStr ''300.1.1.1'') defaultIpOptions =
     \<lparr>success = False,
      errors = [createValidationError []
                  ''Invalid IP address format (must be valid IPv4 or IPv6)'' SECURITY_VIOLATION],
      warnings = [], data = JStr ''300.1.1.1''\<rparr>"
  by (rule validateIp_three_addresses [OF spec_helpers_on_addresses])

theorem invalid_ip_code_counterexample:
  "errors (validateIp specIpHelpers (JStr ''300.1.1.1'') defaultIpOptions) =
     [createValidationError [] ''Invalid IP address format (must be valid IPv4 or IPv6)''
        SECURITY_VIOLATION]
   \<and> codeKind SECURITY_VIOLATION \<noteq> InvalidFormat"
proof -
  have "validateIp specIpHelpers (JStr ''300.1.1.1'') defaultIpOptions =
      failWith (createValidationError []
        ''Invalid IP address format (must be valid IPv4 or IPv6)'' SECURITY_VIOLATION)
        (newResult (JStr ''300.1.1.1''))"
    using spec_helpers_on_addresses(5,6)
    by (simp add: validateIp_def plain_address ipChecks_def defaultIpOptions_def)
  then show ?thesis
    by simp
qed

subsection \<open>C6: the key \<^verbatim>\<open>__proto__\<close>\<close>

lemma proto_scan:
  assumes "''__proto__'' \<in> set (DANGEROUS_PROPERTIES K)"
    and "cell h a = JObject [(''__proto__'', v)]"
  shows "fst (hasDangerousProperties K h (JRef a) {})"
  using assms by (simp add: hasDangerousProperties.simps objectKeys_def)

lemma proto_checkKey:
  assumes "''__proto__'' \<in> set (DANGEROUS_PROPERTIES K)"
  shows "checkKey K opts ''__proto__'' r =
           failWith (if 9 > obj_maxPropertyNameLength opts
                     then createValidationError []
                            (''Property name '' @ quoted ''__proto__...''
                               @ '' exceeds maximum length of ''
                               @ show_int (obj_maxPropertyNameLength opts))
                            SECURITY_VIOLATION
                     else createValidationError []
                            (''Dangerous property name detected: '' @ quoted ''__proto__'')
                            SECURITY_VIOLATION) r"
  using assms by (simp add: checkKey_def)

text \<open>
  C6, as amended. With \<^verbatim>\<open>__proto__\<close> among the dangerous properties, the object
  \<^verbatim>\<open>{"__proto__": {}}\<close> fails with the single security violation of the prototype-pollution
  guard when \<^verbatim>\<open>preventPrototypePollution\<close> is set. When it is not set the object fails as
  well, whatever the other options and the helpers are: the key loop rejects a
  dangerous property name (or, with a \<^verbatim>\<open>maxPropertyNameLength\<close> below 9, a name that is too
  long) without consulting the option, again with a security violation.
\<close>

theorem proto_key_rejected_with_or_without_guard:
  assumes "''__proto__'' \<in> set (DANGEROUS_PROPERTIES K)"
    and "cell h a = JObject [(''__proto__'', v)]"
  shows "(obj_preventPrototypePollution opts \<longrightarrow>
            validateObject K H h (JRef a) opts =
              \<lparr>success = False,
               errors = [createValidationError []
                  ''Object contains dangerous properties that could lead to prototype pollution''
                  SECURITY_VIOLATION],
               warnings = [], data = JRef a\<rparr>)
         \<and> (\<not> obj_preventPrototypePollution opts \<longrightarrow>
            \<not> success (validateObject K H h (JRef a) opts)
            \<and> (if 9 > obj_maxPropertyNameLength opts
                then createValidationError []
                       (''Property name '' @ quoted ''__proto__...''
                          @ '' exceeds maximum length of ''
                          @ show_int (obj_maxPropertyNameLength opts))
                       SECURITY_VIOLATION
                else createValidationError []
                       (''Dangerous property name detected: '' @ quoted ''__proto__'')
                       SECURITY_VIOLATION)
              \<in> set (errors (validateObject K H h (JRef a) opts)))"
proof (intro conjI impI)
  assume "obj_preventPrototypePollution opts"
  with proto_scan [OF assms] assms(2)
  show "validateObject K H h (JRef a) opts =
      \<lparr>success = False,
       errors = [createValidationError []
          ''Object contains dangerous properties that could lead to prototype pollution''
          SECURITY_VIOLATION],
       warnings = [], data = JRef a\<rparr>"
    by (simp add: validateObject_def failWith_def newResult_def)
next
  assume off: "\<not> obj_preventPrototypePollution opts"
  with assms(2) show "\<not> success (validateObject K H h (JRef a) opts)"
    by (simp add: validateObject_def Let_def objectKeys_def proto_checkKey [OF assms(1)])
next
  assume off: "\<not> obj_preventPrototypePollution opts"
  with assms(2)
  show "(if 9 > obj_maxPropertyNameLength opts
         then createValidationError []
                (''Property name '' @ quoted ''__proto__...''
                   @ '' exceeds maximum length of ''
                   @ show_int (obj_maxPropertyNameLength opts))
                SECURITY_VIOLATION
         else createValidationError []
                (''Dangerous property name detected: '' @ quoted ''__proto__'')
                SECURITY_VIOLATION)
        \<in> set (errors (validateObject K H h (JRef a) opts))"
    by (simp add: validateObject_def Let_def objectKeys_def proto_checkKey [OF assms(1)])
qed

theorem proto_key_rejected_witness:
  "validateObject specConstants acceptingObjectHelpers protoHeap (JRef 0)
       (defaultObjectOptions specConstants) =
     \<lparr>success = False,
      errors = [createValidationError []
         ''Object contains dangerous properties that could lead to prototype pollution''
         SECURITY_VIOLATION],
      warnings = [], data = JRef 0\<rparr>
   \<and> createValidationError [] (''Dangerous property name detected: '' @ quoted ''__proto__'')
       SECURITY_VIOLATION
       \<in> set (errors (validateObject specConstants acceptingObjectHelpers protoHeap (JRef 0)
            ((defaultObjectOptions specConstants)\<lparr>obj_preventPrototypePollution := False\<rparr>)))"
proof -
  have k: "''__proto__'' \<in> set (DANGEROUS_PROPERTIES specConstants)"
    by (simp add: specConstants_def)
  have c: "cell protoHeap 0 = JObject [(''__proto__'', JRef 1)]"
    by (simp add: cell_def protoHeap_def)
  show ?thesis
    using proto_key_rejected_with_or_without_guard
        [OF k c, of "defaultObjectOptions specConstants" acceptingObjectHelpers]
      proto_key_rejected_with_or_without_guard
        [OF k c, of "(defaultObjectOptions specConstants)\<lparr>obj_preventPrototypePollution := False\<rparr>"
           acceptingObjectHelpers]
    by (simp add: defaultObjectOptions_def)
qed

theorem proto_key_guard_disabled_counterexample:
  "\<not> success (validateObject specConstants acceptingObjectHelpers protoHeap (JRef 0)
        ((defaultObjectOptions specConstants)\<lparr>obj_preventPrototypePollution := False\<rparr>))"
  by (simp add: validateObject_def Let_def objectKeys_def cell_def protoHeap_def
      specConstants_def defaultObjectOptions_def checkKey_def)

subsection \<open>C7: seven items in windows of three\<close>




subsection \<open>C8: the timeout of a batch\<close>











subsection \<open>C9: the scanner terminates\<close>

lemma scanner_dom: "hasDangerousProperties_scanValues_dom x"
  using scanner_total by simp

lemma visited_grows: "visited \<subseteq> snd (hasDangerousProperties K h obj visited)"
  by (rule visited_grows_dom(1)) (rule scanner_dom)

text \<open>
  C9. \<^verbatim>\<open>hasDangerousProperties\<close> terminates on every object graph, cyclic or not: every
  argument is in the domain on which its recursion is well founded; a node already in
  the visited set is answered false at once, with the set unchanged; a node of the heap
  that is not in it is added before anything is scanned, which leaves strictly fewer
  unvisited nodes to the recursive calls; and the visited set never shrinks.
\<close>

theorem hasDangerousProperties_terminates:
  "hasDangerousProperties_scanValues_dom (Inl (K, h, obj, visited))
   \<and> (a \<in> visited \<longrightarrow> hasDangerousProperties K h (JRef a) visited = (False, visited))
   \<and> (a \<notin> visited \<and> a < length h \<longrightarrow>
        unvisited h (insert a visited) < unvisited h visited
        \<and> hasDangerousProperties K h (JRef a) visited =
            (if list_ex (\<lambda>key. key \<in> set (DANGEROUS_PROPERTIES K)) (objectKeys h a)
             then (True, insert a visited)
             else scanValues K h (objectValues h a) (insert a visited)))
   \<and> visited \<subseteq> snd (hasDangerousProperties K h obj visited)"
proof (intro conjI impI)
  show "hasDangerousProperties_scanValues_dom (Inl (K, h, obj, visited))"
    by (rule scanner_dom)
next
  assume "a \<in> visited"
  then show "hasDangerousProperties K h (JRef a) visited = (False, visited)"
    by (simp add: hasDangerousProperties.simps)
next
  assume "a \<notin> visited \<and> a < length h"
  then show "unvisited h (insert a visited) < unvisited h visited"
    by (simp add: unvisited_insert)
next
  assume "a \<notin> visited \<and> a < length h"
  then show "hasDangerousProperties K h (JRef a) visited =
      (if list_ex (\<lambda>key. key \<in> set (DANGEROUS_PROPERTIES K)) (objectKeys h a)
       then (True, insert a visited)
       else scanValues K h (objectValues h a) (insert a visited))"
    by (simp add: hasDangerousProperties.simps)
next
  show "visited \<subseteq> snd (hasDangerousProperties K h obj visited)"
    by (rule visited_grows)
qed

theorem hasDangerousProperties_terminates_witness:
  "hasDangerousProperties_scanValues_dom (Inl (specConstants, cyclicHeap, JRef 0, {}))
   \<and> hasDangerousProperties specConstants cyclicHeap (JRef 0) {} = (False, {0, 1, 2})
   \<and> hasDangerousProperties specConstants cyclicHeap (JRef 0) {0} = (False, {0})
   \<and> unvisited cyclicHeap {0} < unvisited cyclicHeap {}"
proof -
  have "hasDangerousProperties specConstants cyclicHeap (JRef 0) {} = (False, {0, 1, 2})"
    by (auto simp: hasDangerousProperties.simps cyclicHeap_def specConstants_def
        objectKeys_def objectValues_def cell_def)
  moreover have "(0::nat) \<in> {0}" "(0::nat) \<notin> {}" "0 < length cyclicHeap"
    by (simp_all add: cyclicHeap_def)
  ultimately show ?thesis
    using hasDangerousProperties_terminates [of specConstants cyclicHeap "JRef 0" "{}" 0]
      hasDangerousProperties_terminates [of specConstants cyclicHeap "JRef 0" "{0}" 0]
    by simp
qed

subsection \<open>C10: allowed arrays and \<^verbatim>\<open>null\<close>\<close>

text \<open>
  C10. With \<^verbatim>\<open>allowArray\<close> every array, and with \<^verbatim>\<open>allowNull\<close> the value \<^verbatim>\<open>null\<close>, is
  returned at once as a success without errors or warnings and with the input as data,
  whatever the array holds and whatever the constants and helpers are: neither the
  prototype-pollution scan nor the key checks nor the deep walk are applied.
\<close>

theorem validateObject_allowed_array_or_null:
  "(isArray h val \<and> obj_allowArray opts \<longrightarrow>
      validateObject K H h val opts = \<lparr>success = True, errors = [], warnings = [], data = val\<rparr>)
   \<and> (obj_allowNull opts \<longrightarrow>
      validateObject K H h JNull opts = \<lparr>success = True, errors = [], warnings = [], data = JNull\<rparr>)"
proof (intro conjI impI)
  assume "isArray h val \<and> obj_allowArray opts"
  moreover from this have "val \<noteq> JNull"
    by auto
  ultimately show "validateObject K H h val opts =
      \<lparr>success = True, errors = [], warnings = [], data = val\<rparr>"
    by (simp add: validateObject_def newResult_def failIf_def)
next
  assume "obj_allowNull opts"
  then show "validateObject K H h JNull opts =
      \<lparr>success = True, errors = [], warnings = [], data = JNull\<rparr>"
    by (simp add: validateObject_def newResult_def failIf_def)
qed

theorem validateObject_allowed_array_or_null_witness:
  "validateObject specConstants rejectingObjectHelpers [JArray [JRef 1], JObject [(''__proto__'', JNull)]]
       (JRef 0) ((defaultObjectOptions specConstants)\<lparr>obj_allowArray := True, obj_allowNull := True\<rparr>) =
     \<lparr>success = True, errors = [], warnings = [], data = JRef 0\<rparr>
   \<and> validateObject specConstants rejectingObjectHelpers [JArray [JRef 1], JObject [(''__proto__'', JNull)]]
       JNull ((defaultObjectOptions specConstants)\<lparr>obj_allowArray := True, obj_allowNull := True\<rparr>) =
     \<lparr>success = True, errors = [], warnings = [], data = JNull\<rparr>"
  using validateObject_allowed_array_or_null
    [of "[JArray [JRef 1], JObject [(''__proto__'', JNull)]]" "JRef 0"
        "(defaultObjectOptions specConstants)\<lparr>obj_allowArray := True, obj_allowNull := True\<rparr>"
        specConstants rejectingObjectHelpers]
  by (simp add: defaultObjectOptions_def cell_def)

end
